theory Spec2Isabelle
  imports Complex_Main "HOL-Library.Sublist" "HOL-Library.Multiset"
begin

section \<open>JavaScript values\<close>

text \<open>
  The services work on plain JSON data held in JavaScript objects. A value is a primitive or
  a reference to an object of the heap, so that two paths reaching the same object see each
  other's writes, as they do in the running program.

  A number is \<open>NaN\<close>, an infinity, the negative zero, or a rational; a number read from text
  is the binary64 value nearest to the text's value. A string is the UTF-8 encoding of its
  text; its length and its characters are counted in UTF-16 code units, and lower-casing
  changes the ASCII letters only.
\<close>

datatype jsnum = NaN | PosInf | NegInf | NegZero | Fin rat

datatype jsval = Undefined | Null | Bool bool | Num jsnum | Str string | Ref nat

text \<open>
  An object carries its own properties in insertion order. An array is an object whose
  elements are the properties named by array indices, together with its \<open>length\<close>.
  Members inherited from the built-in prototypes (\<open>toString\<close>, \<open>constructor\<close>, ...) are
  not modelled: such a name is treated like any other name the object does not own.
\<close>

record jsobj =
  isArray :: bool
  props :: "(string \<times> jsval) list"
  arrLength :: nat

type_synonym heap = "jsobj list"

definition cell :: "heap \<Rightarrow> nat \<Rightarrow> jsobj option" where
  "cell h a = (if a < length h then Some (h ! a) else None)"

definition alloc :: "heap \<Rightarrow> jsobj \<Rightarrow> nat \<times> heap" where
  "alloc h obj = (length h, h @ [obj])"

definition emptyObject :: jsobj where
  "emptyObject = \<lparr>isArray = False, props = [], arrLength = 0\<rparr>"

text \<open>Errors thrown by the code or by the language, as values.\<close>

datatype js_error =
    TypeError
  | RangeError
  | PathEmpty
  | SplitNeedsString
  | JoinNeedsArray
  | LookupNeedsTable
  | CustomNeedsFunction
  | CustomNotImplemented
  | CannotConvertNumber string
  | CannotConvertBoolean string
  | InvalidDate string
  | InvalidDateTime string

subsection \<open>Strings\<close>

definition isDigit :: "char \<Rightarrow> bool" where
  "isDigit c = (48 \<le> (of_char c :: nat) \<and> (of_char c :: nat) \<le> 57)"

definition digitVal :: "char \<Rightarrow> nat" where
  "digitVal c = of_char c - 48"

text \<open>
  White space, as \<open>parseFloat\<close> and \<open>trim\<close> know it, each character in UTF-8: tab, line
  feed, vertical tab, form feed, carriage return and space; U+00A0; U+1680; U+2000 to U+200A;
  the line and paragraph separators U+2028 and U+2029; U+202F; U+205F; U+3000; and U+FEFF.
\<close>

definition whiteSpaceCodes :: "string list" where
  "whiteSpaceCodes =
     [[CHR 0x09], [CHR 0x0A], [CHR 0x0B], [CHR 0x0C], [CHR 0x0D], [CHR 0x20],
      [CHR 0xC2, CHR 0xA0],
      [CHR 0xE1, CHR 0x9A, CHR 0x80],
      [CHR 0xE2, CHR 0x80, CHR 0x80], [CHR 0xE2, CHR 0x80, CHR 0x81],
      [CHR 0xE2, CHR 0x80, CHR 0x82], [CHR 0xE2, CHR 0x80, CHR 0x83],
      [CHR 0xE2, CHR 0x80, CHR 0x84], [CHR 0xE2, CHR 0x80, CHR 0x85],
      [CHR 0xE2, CHR 0x80, CHR 0x86], [CHR 0xE2, CHR 0x80, CHR 0x87],
      [CHR 0xE2, CHR 0x80, CHR 0x88], [CHR 0xE2, CHR 0x80, CHR 0x89],
      [CHR 0xE2, CHR 0x80, CHR 0x8A],
      [CHR 0xE2, CHR 0x80, CHR 0xA8], [CHR 0xE2, CHR 0x80, CHR 0xA9],
      [CHR 0xE2, CHR 0x80, CHR 0xAF],
      [CHR 0xE2, CHR 0x81, CHR 0x9F],
      [CHR 0xE3, CHR 0x80, CHR 0x80],
      [CHR 0xEF, CHR 0xBB, CHR 0xBF]]"

text \<open>
  The number of bytes of the character among \<open>codes\<close> that the string starts with, 0 when it
  starts with none of them.
\<close>

definition leadingLength :: "string list \<Rightarrow> string \<Rightarrow> nat" where
  "leadingLength codes s =
     (case filter (\<lambda>code. prefix code s) codes of [] \<Rightarrow> 0 | code # others \<Rightarrow> length code)"

fun dropLeading :: "string list \<Rightarrow> string \<Rightarrow> string" where
  "dropLeading codes [] = []"
| "dropLeading codes (c # cs) =
     (if leadingLength codes (c # cs) = 0 then c # cs
      else dropLeading codes (drop (leadingLength codes (c # cs) - 1) cs))"

definition trimStart :: "string \<Rightarrow> string" where
  "trimStart s = dropLeading whiteSpaceCodes s"

definition trimEnd :: "string \<Rightarrow> string" where
  "trimEnd s = rev (dropLeading (map rev whiteSpaceCodes) (rev s))"

definition trim :: "string \<Rightarrow> string" where
  "trim s = trimEnd (trimStart s)"

text \<open>
  The length of a string and its characters \<open>s[i]\<close> are counted in UTF-16 code units. A
  character of one, two or three bytes is one unit. A character of four bytes is two units,
  the two surrogates of its code point, each written as the three bytes of its own code
  point.
\<close>

definition sequenceLength :: "char \<Rightarrow> nat" where
  "sequenceLength c =
     (if (of_char c :: nat) < 192 then 1
      else if (of_char c :: nat) < 224 then 2
      else if (of_char c :: nat) < 240 then 3
      else 4)"

definition threeBytes :: "nat \<Rightarrow> string" where
  "threeBytes cp =
     [char_of (224 + cp div 4096), char_of (128 + cp div 64 mod 64), char_of (128 + cp mod 64)]"

definition surrogates :: "string \<Rightarrow> string list" where
  "surrogates bs =
     (let n = map of_char bs @ [0, 0, 0, 0];
          cp = (n ! 0 mod 8) * 262144 + (n ! 1 mod 64) * 4096 + (n ! 2 mod 64) * 64 + n ! 3 mod 64;
          v = cp - 65536
      in [threeBytes (55296 + v div 1024), threeBytes (56320 + v mod 1024)])"

fun codeUnits :: "string \<Rightarrow> string list" where
  "codeUnits [] = []"
| "codeUnits (c # cs) =
     (if sequenceLength c = 4 then surrogates (c # take 3 cs)
      else [c # take (sequenceLength c - 1) cs])
     @ codeUnits (drop (sequenceLength c - 1) cs)"

definition isUpper :: "char \<Rightarrow> bool" where
  "isUpper c = (65 \<le> (of_char c :: nat) \<and> (of_char c :: nat) \<le> 90)"

text \<open>An upper-case ASCII letter and its lower-case form differ in the bit of value 32.\<close>

definition lowerChar :: "char \<Rightarrow> char" where
  "lowerChar c =
     (if isUpper c
      then (case c of Char b0 b1 b2 b3 b4 b5 b6 b7 \<Rightarrow> Char b0 b1 b2 b3 b4 True b6 b7)
      else c)"

definition toLowerCase :: "string \<Rightarrow> string" where
  "toLowerCase s = map lowerChar s"

text \<open>\<open>s.includes(t)\<close>: \<open>t\<close> occurs in \<open>s\<close> as a contiguous substring.\<close>

fun includesStr :: "string \<Rightarrow> string \<Rightarrow> bool" where
  "includesStr [] t = (t = [])"
| "includesStr (c # cs) t = (prefix t (c # cs) \<or> includesStr cs t)"

text \<open>\<open>s.split(sep)\<close> for a non-empty separator; \<open>acc\<close> is the piece being read.\<close>

fun splitOn :: "string \<Rightarrow> string \<Rightarrow> string \<Rightarrow> string list" where
  "splitOn sep acc [] = [acc]"
| "splitOn sep acc (c # cs) =
     (if sep \<noteq> [] \<and> prefix sep (c # cs)
      then acc # splitOn sep [] (drop (length sep - 1) cs)
      else splitOn sep (acc @ [c]) cs)"

definition split :: "string \<Rightarrow> string \<Rightarrow> string list" where
  "split s sep = splitOn sep [] s"

fun joinWith :: "string \<Rightarrow> string list \<Rightarrow> string" where
  "joinWith sep [] = []"
| "joinWith sep [x] = x"
| "joinWith sep (x # y # ys) = x @ sep @ joinWith sep (y # ys)"

fun natOfDigits :: "nat \<Rightarrow> string \<Rightarrow> nat" where
  "natOfDigits acc [] = acc"
| "natOfDigits acc (c # cs) = natOfDigits (10 * acc + digitVal c) cs"

text \<open>
  An array index is the canonical decimal name of a natural number below \<open>2^32 - 1\<close>.
\<close>

definition arrayIndex :: "string \<Rightarrow> nat option" where
  "arrayIndex s =
     (if s \<noteq> [] \<and> list_all isDigit s \<and> (s = ''0'' \<or> hd s \<noteq> CHR ''0'')
         \<and> natOfDigits 0 s < 4294967295
      then Some (natOfDigits 0 s) else None)"

definition digitChar :: "nat \<Rightarrow> char" where
  "digitChar d = ''0123456789'' ! (d mod 10)"

text \<open>The decimal name of a natural number.\<close>

fun showNat :: "nat \<Rightarrow> string" where
  "showNat n = (if n < 10 then [digitChar n] else showNat (n div 10) @ [digitChar n])"

declare showNat.simps [simp del]

subsection \<open>Reading numbers\<close>

text \<open>The number of binary digits of a natural number.\<close>

fun bitLength :: "nat \<Rightarrow> nat" where
  "bitLength n = (if n = 0 then 0 else Suc (bitLength (n div 2)))"

declare bitLength.simps [simp del]

text \<open>The integer part of the binary logarithm of \<open>a / b\<close>, for positive \<open>a\<close> and \<open>b\<close>.\<close>

definition floorLog2 :: "nat \<Rightarrow> nat \<Rightarrow> int" where
  "floorLog2 a b =
     (let d = int (bitLength a) - int (bitLength b)
      in if (if 0 \<le> d then b * 2 ^ nat d \<le> a else b \<le> a * 2 ^ nat (- d)) then d else d - 1)"

text \<open>The integer nearest to \<open>n / d\<close>, the even one of the two when \<open>n / d\<close> is half-way.\<close>

definition roundHalfEven :: "nat \<Rightarrow> nat \<Rightarrow> nat" where
  "roundHalfEven n d =
     (let q = n div d; r = n mod d
      in if 2 * r < d then q else if d < 2 * r then Suc q else if even q then q else Suc q)"

definition pow2 :: "int \<Rightarrow> rat" where
  "pow2 e = (if 0 \<le> e then 2 ^ nat e else 1 / 2 ^ nat (- e))"

text \<open>
  The Number value of the non-negative fraction \<open>a / b\<close>: the nearest binary64 value, ties
  to the even significand. A significand has 53 bits, the least unit is \<open>2^-1074\<close>, and a
  result of \<open>2^1024\<close> or more is \<open>Infinity\<close>.
\<close>

definition numberValue :: "nat \<Rightarrow> nat \<Rightarrow> jsnum" where
  "numberValue a b =
     (if a = 0 then Fin 0
      else
        (let e = floorLog2 a b;
             u = max (e - 52) (- 1074);
             m = (if 0 \<le> u then roundHalfEven a (b * 2 ^ nat u)
                  else roundHalfEven (a * 2 ^ nat (- u)) b)
         in if 0 \<le> u \<and> 2 ^ 1024 \<le> m * 2 ^ nat u then PosInf else Fin (of_nat m * pow2 u)))"

text \<open>The Number value of \<open>m\<close> times ten to the power \<open>e\<close>.\<close>

definition decimalValue :: "nat \<Rightarrow> int \<Rightarrow> jsnum" where
  "decimalValue m e =
     (if 0 \<le> e then numberValue (m * 10 ^ nat e) 1 else numberValue m (10 ^ nat (- e)))"

definition negate :: "jsnum \<Rightarrow> jsnum" where
  "negate n =
     (case n of
        NaN \<Rightarrow> NaN
      | PosInf \<Rightarrow> NegInf
      | NegInf \<Rightarrow> PosInf
      | NegZero \<Rightarrow> Fin 0
      | Fin q \<Rightarrow> if q = 0 then NegZero else Fin (- q))"

text \<open>
  An exponent part \<open>e\<close>, optional sign, digits. The result is the exponent and the rest of the
  input; an \<open>e\<close> that no digit follows is not part of the number.
\<close>

definition scanExponent :: "string \<Rightarrow> int \<times> string" where
  "scanExponent s =
     (case s of
        [] \<Rightarrow> (0, s)
      | c # r \<Rightarrow>
          if c = CHR ''e'' \<or> c = CHR ''E'' then
            (let negative = (r \<noteq> [] \<and> hd r = CHR ''-'');
                 r1 = (if r \<noteq> [] \<and> (hd r = CHR ''-'' \<or> hd r = CHR ''+'') then tl r else r);
                 ds = takeWhile isDigit r1
             in if ds = [] then (0, s)
                else ((if negative then - int (natOfDigits 0 ds) else int (natOfDigits 0 ds)),
                      dropWhile isDigit r1))
          else (0, s))"

text \<open>
  The longest prefix of the input that is a \<open>StrUnsignedDecimalLiteral\<close>: \<open>Infinity\<close>, or
  digits with an optional fraction and an optional exponent, at least one digit before or
  after the point. The result is its value and the rest of the input.
\<close>

definition scanUnsigned :: "string \<Rightarrow> (jsnum \<times> string) option" where
  "scanUnsigned s =
     (if prefix ''Infinity'' s then Some (PosInf, drop 8 s)
      else
        (let ip = takeWhile isDigit s;
             r1 = dropWhile isDigit s;
             hasPoint = (r1 \<noteq> [] \<and> hd r1 = CHR ''.'');
             fp = (if hasPoint then takeWhile isDigit (tl r1) else []);
             r2 = (if hasPoint then dropWhile isDigit (tl r1) else r1)
         in if ip = [] \<and> fp = [] then None
            else (case scanExponent r2 of
                    (e, r3) \<Rightarrow>
                      Some (decimalValue (natOfDigits 0 (ip @ fp)) (e - int (length fp)), r3))))"

definition scanDecimal :: "string \<Rightarrow> (jsnum \<times> string) option" where
  "scanDecimal s =
     (if s \<noteq> [] \<and> hd s = CHR ''+'' then scanUnsigned (tl s)
      else if s \<noteq> [] \<and> hd s = CHR ''-''
      then map_option (\<lambda>(n, rest). (negate n, rest)) (scanUnsigned (tl s))
      else scanUnsigned s)"

text \<open>
  \<open>parseFloat\<close>: leading white space is skipped, the longest numeric prefix is read and
  whatever follows it is ignored; \<open>NaN\<close> when there is no such prefix. The value is
  rounded to binary64, so a text with a value too large for it reads as \<open>Infinity\<close>.
\<close>

definition parseFloat :: "string \<Rightarrow> jsnum" where
  "parseFloat s = (case scanDecimal (trimStart s) of None \<Rightarrow> NaN | Some (n, rest) \<Rightarrow> n)"

text \<open>
  The conversion of a whole string to a number (\<open>StringToNumber\<close>): white space at both ends
  is dropped, the empty string is 0, and otherwise the entire rest must be a decimal literal
  or a \<open>0x\<close>, \<open>0o\<close> or \<open>0b\<close> integer.
\<close>

definition radixDigit :: "char \<Rightarrow> nat" where
  "radixDigit c =
     (let n = (of_char c :: nat)
      in if 48 \<le> n \<and> n \<le> 57 then n - 48
         else if 97 \<le> n \<and> n \<le> 102 then n - 87
         else if 65 \<le> n \<and> n \<le> 70 then n - 55
         else 16)"

fun natOfRadix :: "nat \<Rightarrow> nat \<Rightarrow> string \<Rightarrow> nat" where
  "natOfRadix radix acc [] = acc"
| "natOfRadix radix acc (c # cs) = natOfRadix radix (radix * acc + radixDigit c) cs"

definition scanNonDecimal :: "string \<Rightarrow> jsnum option" where
  "scanNonDecimal s =
     (case s of
        z # x # ds \<Rightarrow>
          (let radix =
                 (if x = CHR ''x'' \<or> x = CHR ''X'' then 16
                  else if x = CHR ''o'' \<or> x = CHR ''O'' then 8
                  else if x = CHR ''b'' \<or> x = CHR ''B'' then 2 else 0 :: nat)
           in if z = CHR ''0'' \<and> radix \<noteq> 0 \<and> ds \<noteq> [] \<and> list_all (\<lambda>c. radixDigit c < radix) ds
              then Some (numberValue (natOfRadix radix 0 ds) 1) else None)
      | _ \<Rightarrow> None)"

definition stringToNumber :: "string \<Rightarrow> jsnum" where
  "stringToNumber s =
     (let t = trim s
      in if t = [] then Fin 0
         else (case scanNonDecimal t of
                 Some n \<Rightarrow> n
               | None \<Rightarrow>
                   (case scanDecimal t of
                      Some (n, rest) \<Rightarrow> if rest = [] then n else NaN
                    | None \<Rightarrow> NaN)))"

text \<open>
  The entire string is a number: apart from white space around it, the text is one numeric
  literal and nothing else.
\<close>

definition entireStringIsNumber :: "string \<Rightarrow> bool" where
  "entireStringIsNumber s = (trim s \<noteq> [] \<and> stringToNumber s \<noteq> NaN)"

subsection \<open>Built-ins outside the model\<close>

text \<open>
  Two built-ins are parameters of the model: the decimal text of a number
  (\<open>Number::toString\<close>), and date parsing, which is implementation-defined for most inputs.
  \<open>parseDate s\<close> is what \<open>new Date(s).toISOString()\<close> returns, \<open>None\<close> for an invalid date.
  Every statement below holds for all choices of the two.
\<close>

record builtins =
  numberToString :: "jsnum \<Rightarrow> string"
  parseDate :: "string \<Rightarrow> string option"

subsection \<open>Objects and arrays\<close>

definition arrayOf :: "jsval list \<Rightarrow> jsobj" where
  "arrayOf xs =
     \<lparr>isArray = True, props = zip (map showNat [0..<length xs]) xs, arrLength = length xs\<rparr>"

text \<open>The own property \<open>key\<close> of an object; an array also owns \<open>length\<close>.\<close>

definition ownProperty :: "jsobj \<Rightarrow> string \<Rightarrow> jsval option" where
  "ownProperty obj key =
     (if isArray obj \<and> key = ''length'' then Some (Num (Fin (of_nat (arrLength obj))))
      else map_of (props obj) key)"

text \<open>The elements of an array, a hole read as \<open>undefined\<close>.\<close>

definition arrayElements :: "jsobj \<Rightarrow> jsval list" where
  "arrayElements obj =
     map (\<lambda>i. case map_of (props obj) (showNat i) of Some v \<Rightarrow> v | None \<Rightarrow> Undefined)
       [0..<arrLength obj]"

text \<open>
  \<open>Object.keys\<close> order: array indices in ascending order, then the other names in insertion
  order.
\<close>

definition orderedKeys :: "string list \<Rightarrow> string list" where
  "orderedKeys ks =
     map showNat (sort (map (\<lambda>k. the (arrayIndex k)) (filter (\<lambda>k. arrayIndex k \<noteq> None) ks)))
     @ filter (\<lambda>k. arrayIndex k = None) ks"

definition ownKeys :: "jsobj \<Rightarrow> string list" where
  "ownKeys obj = orderedKeys (map fst (props obj))"

definition objectKeys :: "heap \<Rightarrow> jsval \<Rightarrow> js_error + string list" where
  "objectKeys h v =
     (case v of
        Undefined \<Rightarrow> Inl TypeError
      | Null \<Rightarrow> Inl TypeError
      | Str s \<Rightarrow> Inr (map showNat [0..<length (codeUnits s)])
      | Ref a \<Rightarrow> (case cell h a of Some obj \<Rightarrow> Inr (ownKeys obj) | None \<Rightarrow> Inr [])
      | _ \<Rightarrow> Inr [])"

definition truthy :: "jsval \<Rightarrow> bool" where
  "truthy v =
     (case v of
        Undefined \<Rightarrow> False
      | Null \<Rightarrow> False
      | Bool x \<Rightarrow> x
      | Num n \<Rightarrow> n \<noteq> NaN \<and> n \<noteq> Fin 0 \<and> n \<noteq> NegZero
      | Str s \<Rightarrow> s \<noteq> []
      | Ref a \<Rightarrow> True)"

text \<open>
  \<open>String(value)\<close>. An array is the comma-joined text of its elements, \<open>null\<close> and
  \<open>undefined\<close> elements giving the empty text; \<open>stack\<close> holds the arrays being joined, and
  an array met again inside itself gives the empty text.
\<close>

function toStringJS :: "builtins \<Rightarrow> heap \<Rightarrow> nat list \<Rightarrow> jsval \<Rightarrow> string" where
  "toStringJS b h stack Undefined = ''undefined''"
| "toStringJS b h stack Null = ''null''"
| "toStringJS b h stack (Bool x) = (if x then ''true'' else ''false'')"
| "toStringJS b h stack (Num n) = numberToString b n"
| "toStringJS b h stack (Str s) = s"
| "toStringJS b h stack (Ref a) =
     (if a < length h \<and> isArray (h ! a) then
        (if a \<in> set stack then []
         else joinWith '',''
                (map (\<lambda>e. if e = Undefined \<or> e = Null then [] else toStringJS b h (a # stack) e)
                   (arrayElements (h ! a))))
      else ''[object Object]'')"
  by pat_completeness auto
termination
proof (relation "measure (\<lambda>(b, h, stack, v). card ({..<length h} - set stack))")
  show "wf (measure (\<lambda>(b, h, stack, v). card ({..<length h} - set stack)))"
    by simp
next
  fix b :: builtins and h :: heap and stack :: "nat list" and a :: nat and e :: jsval
  assume "a < length h \<and> isArray (h ! a)" and "a \<notin> set stack"
  then have "{..<length h} - set (a # stack) \<subset> {..<length h} - set stack"
    by auto
  then have "card ({..<length h} - set (a # stack)) < card ({..<length h} - set stack)"
    by (simp add: psubset_card_mono)
  then show "((b, h, a # stack, e), (b, h, stack, Ref a))
      \<in> measure (\<lambda>(b, h, stack, v). card ({..<length h} - set stack))"
    by simp
qed

definition String :: "builtins \<Rightarrow> heap \<Rightarrow> jsval \<Rightarrow> string" where
  "String b h v = toStringJS b h [] v"

text \<open>\<open>array.join(separator)\<close> for the array at address \<open>a\<close>.\<close>

definition joinArray :: "builtins \<Rightarrow> heap \<Rightarrow> nat \<Rightarrow> string \<Rightarrow> string" where
  "joinArray b h a separator =
     joinWith separator
       (map (\<lambda>e. if e = Undefined \<or> e = Null then [] else toStringJS b h [a] e)
          (case cell h a of Some obj \<Rightarrow> arrayElements obj | None \<Rightarrow> []))"

definition toNumber :: "builtins \<Rightarrow> heap \<Rightarrow> jsval \<Rightarrow> jsnum" where
  "toNumber b h v =
     (case v of
        Undefined \<Rightarrow> NaN
      | Null \<Rightarrow> Fin 0
      | Bool x \<Rightarrow> Fin (if x then 1 else 0)
      | Num n \<Rightarrow> n
      | Str s \<Rightarrow> stringToNumber s
      | Ref a \<Rightarrow> stringToNumber (String b h v))"

text \<open>
  \<open>current[part]\<close> on a value that is neither \<open>null\<close> nor \<open>undefined\<close>: a string has its
  \<open>length\<close> and its characters, an object its own properties, and a name the value does not
  have reads as \<open>undefined\<close>.
\<close>

definition getProperty :: "heap \<Rightarrow> jsval \<Rightarrow> string \<Rightarrow> jsval" where
  "getProperty h v key =
     (case v of
        Str s \<Rightarrow>
          (if key = ''length'' then Num (Fin (of_nat (length (codeUnits s))))
           else (case arrayIndex key of
                   Some i \<Rightarrow> if i < length (codeUnits s) then Str (codeUnits s ! i) else Undefined
                 | None \<Rightarrow> Undefined))
      | Ref a \<Rightarrow>
          (case cell h a of
             Some obj \<Rightarrow> (case ownProperty obj key of Some x \<Rightarrow> x | None \<Rightarrow> Undefined)
           | None \<Rightarrow> Undefined)
      | _ \<Rightarrow> Undefined)"

text \<open>\<open>part in current\<close>: a \<open>TypeError\<close> unless \<open>current\<close> is an object.\<close>

definition hasProperty :: "heap \<Rightarrow> string \<Rightarrow> jsval \<Rightarrow> js_error + bool" where
  "hasProperty h key v =
     (case v of
        Ref a \<Rightarrow>
          (case cell h a of
             Some obj \<Rightarrow> Inr (ownProperty obj key \<noteq> None)
           | None \<Rightarrow> Inl TypeError)
      | _ \<Rightarrow> Inl TypeError)"

fun updateProp :: "string \<Rightarrow> 'a \<Rightarrow> (string \<times> 'a) list \<Rightarrow> (string \<times> 'a) list" where
  "updateProp k v [] = [(k, v)]"
| "updateProp k v ((k', v') # ps) =
     (if k' = k then (k, v) # ps else (k', v') # updateProp k v ps)"

definition validLength :: "jsnum \<Rightarrow> nat option" where
  "validLength n =
     (case n of
        Fin q \<Rightarrow> if 0 \<le> q \<and> q < 4294967296 \<and> of_int \<lfloor>q\<rfloor> = q then Some (nat \<lfloor>q\<rfloor>) else None
      | NegZero \<Rightarrow> Some 0
      | _ \<Rightarrow> None)"

text \<open>
  \<open>current[key] = value\<close> in strict mode. On a primitive, \<open>null\<close> or \<open>undefined\<close> it is a
  \<open>TypeError\<close>. On an array, writing an index at or beyond the end extends the array, and
  writing \<open>length\<close> truncates or extends it, or is a \<open>RangeError\<close> when the value is not an
  array length.
\<close>

definition setProperty :: "builtins \<Rightarrow> heap \<Rightarrow> jsval \<Rightarrow> string \<Rightarrow> jsval \<Rightarrow> js_error + heap" where
  "setProperty b h target key v =
     (case target of
        Ref a \<Rightarrow>
          (case cell h a of
             None \<Rightarrow> Inl TypeError
           | Some obj \<Rightarrow>
               if isArray obj \<and> key = ''length'' then
                 (case validLength (toNumber b h v) of
                    None \<Rightarrow> Inl RangeError
                  | Some n \<Rightarrow>
                      Inr (h[a := obj\<lparr>props :=
                                       filter (\<lambda>(k, x). case arrayIndex k of
                                                          Some i \<Rightarrow> i < n | None \<Rightarrow> True)
                                         (props obj),
                                     arrLength := n\<rparr>]))
               else if isArray obj \<and> arrayIndex key \<noteq> None then
                 Inr (h[a := obj\<lparr>props := updateProp key v (props obj),
                                arrLength := max (arrLength obj) (Suc (the (arrayIndex key)))\<rparr>])
               else Inr (h[a := obj\<lparr>props := updateProp key v (props obj)\<rparr>]))
      | _ \<Rightarrow> Inl TypeError)"

section \<open>Schema trees and field paths\<close>

datatype DataType = STRING | NUMBER | INTEGER | BOOLEAN | ARRAY | OBJECT | NULL

text \<open>
  A schema node with the fields that path extraction and scoring read: \<open>type\<close>, \<open>format\<close>,
  \<open>properties\<close> (in the order \<open>Object.entries\<close> lists them) and \<open>items\<close>.
\<close>

datatype SchemaObject =
  SchemaObject (schema_type: DataType) (format: "string option")
    (properties: "(string \<times> SchemaObject) list option") (items: "SchemaObject option")

definition typeName :: "DataType \<Rightarrow> string" where
  "typeName t = (case t of STRING \<Rightarrow> ''string'' | NUMBER \<Rightarrow> ''number'' | INTEGER \<Rightarrow> ''integer''
     | BOOLEAN \<Rightarrow> ''boolean'' | ARRAY \<Rightarrow> ''array'' | OBJECT \<Rightarrow> ''object'' | NULL \<Rightarrow> ''null'')"

definition childPath :: "string \<Rightarrow> string \<Rightarrow> string" where
  "childPath pre key = (if pre \<noteq> [] then pre @ ''.'' @ key else key)"

definition arrayPath :: "string \<Rightarrow> string" where
  "arrayPath pre = (if pre \<noteq> [] then pre @ ''[]'' else ''[]'')"

text \<open>\<open>SchemaService.getFieldPaths\<close>.\<close>

fun getFieldPaths :: "SchemaObject \<Rightarrow> string \<Rightarrow> string list" where
  "getFieldPaths (SchemaObject t f ps it) pre =
     (case (t, ps, it) of
        (OBJECT, Some entries, _) \<Rightarrow>
          concat (map (\<lambda>(key, prop).
            childPath pre key #
              (if schema_type prop = OBJECT \<or> schema_type prop = ARRAY
               then getFieldPaths prop (childPath pre key) else [])) entries)
      | (ARRAY, _, Some itemSchema) \<Rightarrow>
          arrayPath pre # getFieldPaths itemSchema (arrayPath pre)
      | _ \<Rightarrow> [])"

text \<open>\<open>MappingService.extractFields\<close>, the extraction the similarity scorer uses.\<close>

fun extractFields :: "SchemaObject \<Rightarrow> string \<Rightarrow> (string \<times> SchemaObject) list" where
  "extractFields (SchemaObject t f ps it) pre =
     (case (t, ps, it) of
        (OBJECT, Some entries, _) \<Rightarrow>
          concat (map (\<lambda>(key, prop).
            (childPath pre key, prop) #
              (if schema_type prop = OBJECT \<or> schema_type prop = ARRAY
               then extractFields prop (childPath pre key) else [])) entries)
      | (ARRAY, _, Some itemSchema) \<Rightarrow> extractFields itemSchema (arrayPath pre)
      | _ \<Rightarrow> [])"


section \<open>Similarity scoring (MappingService)\<close>

text \<open>
  The parameter bag of a transformation rule, with the keys the code reads and the types its
  casts give them. A lookup table may hold any values, also references into the heap.
\<close>

record RuleParams =
  param_from :: "string option"
  param_to :: "string option"
  param_separator :: "string option"
  param_table :: "(string \<times> jsval) list option"

record TransformationRule =
  rule_type :: string
  rule_params :: "RuleParams option"
  rule_function :: "string option"

definition noParams :: RuleParams where
  "noParams = \<lparr>param_from = None, param_to = None, param_separator = None, param_table = None\<rparr>"

text \<open>Confidence scores are exact rationals; the code computes them in binary64.\<close>

record MappingSuggestion =
  confidence :: rat
  sug_sourceField :: string
  sug_targetField :: string
  reasoning :: string
  suggestedTransformation :: "TransformationRule option"

text \<open>The constants of \<open>constants.ts\<close>.\<close>

definition FIELD_SYNONYMS :: "(string \<times> string list) list" where
  "FIELD_SYNONYMS =
    [(''email'', [''mail'', ''e_mail'', ''email_address'', ''emailaddress'']),
     (''phone'', [''telephone'', ''tel'', ''phone_number'', ''phonenumber'', ''mobile'',
                  ''contact_number'', ''contactnumber'']),
     (''name'', [''fullname'', ''full_name'', ''display_name'', ''displayname'']),
     (''firstName'', [''first_name'', ''firstname'', ''given_name'', ''givenname'']),
     (''lastName'', [''last_name'', ''lastname'', ''family_name'', ''familyname'', ''surname'']),
     (''street'', [''address'', ''street_address'', ''streetaddress'', ''street1'']),
     (''city'', [''location'', ''town'']),
     (''state'', [''province'', ''region'']),
     (''zipCode'', [''zip'', ''postal_code'', ''postalcode'', ''postcode'']),
     (''country'', [''nation'']),
     (''birthDate'', [''birth_date'', ''birthdate'', ''dob'', ''date_of_birth'', ''dateofbirth'']),
     (''companyName'', [''company'', ''organization'', ''org_name'', ''orgname'', ''business_name'',
                        ''businessname'']),
     (''status'', [''state'', ''condition'']),
     (''createdAt'', [''created_date'', ''createddate'', ''creation_date'', ''created_on'',
                      ''created'']),
     (''updatedAt'', [''updated_date'', ''updateddate'', ''last_modified'', ''lastmodified'',
                      ''modified_at'', ''modifiedat'']),
     (''id'', [''identifier'', ''uid'', ''unique_id'', ''uniqueid'', ''entity_id'', ''entityid''])]"

definition DEFAULT_CONFIDENCE_THRESHOLD :: rat where
  "DEFAULT_CONFIDENCE_THRESHOLD = 0.7"

text \<open>\<open>replace(/\[\]/g, "")\<close>: every occurrence of \<open>[]\<close>, left to right.\<close>

fun removeBrackets :: "string \<Rightarrow> string" where
  "removeBrackets [] = []"
| "removeBrackets [c] = [c]"
| "removeBrackets (c # d # cs) =
     (if c = CHR ''['' \<and> d = CHR '']'' then removeBrackets cs else c # removeBrackets (d # cs))"

definition normalizeName :: "string \<Rightarrow> string" where
  "normalizeName name =
     removeBrackets (filter (\<lambda>c. c \<noteq> CHR ''-'' \<and> c \<noteq> CHR ''_'') (toLowerCase name))"

definition checkSynonyms :: "string \<Rightarrow> string \<Rightarrow> rat" where
  "checkSynonyms name1 name2 =
     (if list_ex (\<lambda>synonyms.
            name1 \<in> set (map normalizeName synonyms) \<and> name2 \<in> set (map normalizeName synonyms))
          (map snd FIELD_SYNONYMS)
      then 1 else 0)"

definition calculateTypeCompatibility :: "DataType \<Rightarrow> DataType \<Rightarrow> rat" where
  "calculateTypeCompatibility type1 type2 =
     (if type1 = type2 then 1
      else if (type1 = NUMBER \<and> type2 = INTEGER) \<or> (type1 = INTEGER \<and> type2 = NUMBER) then 0.7
      else if (type1 = STRING \<and> type2 = NULL) \<or> (type1 = NULL \<and> type2 = STRING) then 0.7
      else 0)"

definition calculateFieldSimilarity ::
  "string \<Rightarrow> string \<Rightarrow> SchemaObject \<Rightarrow> SchemaObject \<Rightarrow> rat" where
  "calculateFieldSimilarity sourceName targetName sourceSchema targetSchema =
     (let score0 = (if sourceName = targetName then 0.5 else 0);
          score1 = score0 + (if toLowerCase sourceName = toLowerCase targetName then 0.3 else 0);
          normalizedSource = normalizeName sourceName;
          normalizedTarget = normalizeName targetName;
          score2 = score1 + (if normalizedSource = normalizedTarget then 0.2 else 0);
          score3 = score2 + checkSynonyms normalizedSource normalizedTarget * 0.3;
          score4 = score3 +
            (if includesStr normalizedSource normalizedTarget
                \<or> includesStr normalizedTarget normalizedSource then 0.1 else 0);
          score5 = score4 +
            calculateTypeCompatibility (schema_type sourceSchema) (schema_type targetSchema) * 0.3
      in min score5 1)"

definition suggestTransformation :: "SchemaObject \<Rightarrow> SchemaObject \<Rightarrow> TransformationRule option" where
  "suggestTransformation sourceSchema targetSchema =
     (if schema_type sourceSchema = schema_type targetSchema
      then Some \<lparr>rule_type = ''direct'', rule_params = None, rule_function = None\<rparr>
      else if schema_type sourceSchema = STRING \<and> schema_type targetSchema = NUMBER
      then Some \<lparr>rule_type = ''format'',
                 rule_params = Some (noParams\<lparr>param_from := Some ''string'', param_to := Some ''number''\<rparr>),
                 rule_function = Some ''parseFloat''\<rparr>
      else if schema_type sourceSchema = NUMBER \<and> schema_type targetSchema = STRING
      then Some \<lparr>rule_type = ''format'',
                 rule_params = Some (noParams\<lparr>param_from := Some ''number'', param_to := Some ''string''\<rparr>),
                 rule_function = Some ''toString''\<rparr>
      else if format sourceSchema = Some ''date'' \<and> format targetSchema = Some ''date-time''
      then Some \<lparr>rule_type = ''format'',
                 rule_params = Some (noParams\<lparr>param_from := Some ''date'', param_to := Some ''date-time''\<rparr>),
                 rule_function = None\<rparr>
      else if schema_type sourceSchema = ARRAY \<and> schema_type targetSchema = STRING
      then Some \<lparr>rule_type = ''join'',
                 rule_params = Some (noParams\<lparr>param_separator := Some '', ''\<rparr>),
                 rule_function = None\<rparr>
      else if schema_type sourceSchema = STRING \<and> schema_type targetSchema = ARRAY
      then Some \<lparr>rule_type = ''split'',
                 rule_params = Some (noParams\<lparr>param_separator := Some '',''\<rparr>),
                 rule_function = None\<rparr>
      else None)"

text \<open>The separator of the type-conversion reason: a space, U+2192 in UTF-8, a space.\<close>

definition rightArrow :: string where
  "rightArrow = [CHR '' '', CHR 0xE2, CHR 0x86, CHR 0x92, CHR '' '']"

text \<open>
  \<open>(confidence * 100).toFixed(1)\<close> for a score between 0 and 1: the nearest multiple of one
  tenth, the larger one on a tie.
\<close>

definition toFixed1 :: "rat \<Rightarrow> string" where
  "toFixed1 x =
     (let n = nat \<lfloor>x * 10 + 1 / 2\<rfloor> in showNat (n div 10) @ ''.'' @ showNat (n mod 10))"

definition generateReasoning ::
  "string \<times> SchemaObject \<Rightarrow> string \<times> SchemaObject \<Rightarrow> rat \<Rightarrow> string" where
  "generateReasoning sourceField targetField conf =
     (let normalizedSource = normalizeName (fst sourceField);
          normalizedTarget = normalizeName (fst targetField);
          reasons1 =
            (if fst sourceField = fst targetField then [''Exact field name match'']
             else if normalizedSource = normalizedTarget
             then [''Field names match after normalization''] else []);
          reasons2 =
            (if schema_type (snd sourceField) = schema_type (snd targetField)
             then [''Same data type'']
             else [''Type conversion needed: '' @ typeName (schema_type (snd sourceField))
                     @ rightArrow @ typeName (schema_type (snd targetField))]);
          reasons3 =
            (if checkSynonyms normalizedSource normalizedTarget > 0
             then [''Field names are synonyms''] else []);
          reasons4 = [''Confidence: '' @ toFixed1 (conf * 100) @ ''%'']
      in joinWith ''; '' (reasons1 @ reasons2 @ reasons3 @ reasons4))"

text \<open>The body of the inner loop of \<open>suggestMappings\<close>: what one pair of fields pushes.\<close>

definition makeSuggestion ::
  "string \<times> SchemaObject \<Rightarrow> string \<times> SchemaObject \<Rightarrow> rat \<Rightarrow> MappingSuggestion" where
  "makeSuggestion sourceField targetField conf =
     \<lparr>confidence = conf,
      sug_sourceField = fst sourceField,
      sug_targetField = fst targetField,
      reasoning = generateReasoning sourceField targetField conf,
      suggestedTransformation = suggestTransformation (snd sourceField) (snd targetField)\<rparr>"

definition fieldScore :: "string \<times> SchemaObject \<Rightarrow> string \<times> SchemaObject \<Rightarrow> rat" where
  "fieldScore sourceField targetField =
     calculateFieldSimilarity (fst sourceField) (fst targetField) (snd sourceField) (snd targetField)"

definition suggestPair ::
  "rat \<Rightarrow> string \<times> SchemaObject \<Rightarrow> string \<times> SchemaObject \<Rightarrow> MappingSuggestion list" where
  "suggestPair confidenceThreshold sourceField targetField =
     (let conf = fieldScore sourceField targetField
      in if conf \<ge> confidenceThreshold then [makeSuggestion sourceField targetField conf] else [])"

text \<open>
  \<open>suggestMappings\<close>: the two nested loops, then \<open>sort((a, b) => b.confidence - a.confidence)\<close>,
  which is a stable sort by descending confidence.
\<close>

definition suggestMappings ::
  "SchemaObject \<Rightarrow> SchemaObject \<Rightarrow> rat \<Rightarrow> MappingSuggestion list" where
  "suggestMappings sourceSchema targetSchema confidenceThreshold =
     (let sourceFields = extractFields sourceSchema [];
          targetFields = extractFields targetSchema [];
          suggestions =
            concat (map (\<lambda>sourceField.
              concat (map (\<lambda>targetField.
                suggestPair confidenceThreshold sourceField targetField) targetFields))
              sourceFields)
      in sort_key (\<lambda>s. - confidence s) suggestions)"

section \<open>TransformationService\<close>

text \<open>
  The service as its TypeScript source has it. The compiled copy that ships next to the
  source is older: it lacks the guards for an empty path in \<open>transformPayload\<close>,
  \<open>getNestedValue\<close> and \<open>setNestedValue\<close>.

  A field correspondence as \<open>transformPayload\<close> reads it. An absent, \<open>undefined\<close> or \<open>null\<close>
  path is \<open>None\<close>.
\<close>

record FieldMapping =
  sourceField :: "string option"
  targetField :: "string option"
  transformation :: "TransformationRule option"
  required :: bool

record SchemaMapping =
  mapping_id :: string
  mapping_name :: string
  fieldMappings :: "FieldMapping list"

text \<open>The message of a per-field error, by the place that records it.\<close>

datatype failure =
    InvalidFieldMapping "string option" "string option"
  | RequiredMissing
  | TransformationFailed js_error
  | FailedToTransform js_error

record TransformationError =
  field :: string
  error :: failure
  originalValue :: jsval

record PayloadTransformResult =
  success :: bool
  transformedPayload :: "jsval option"
  errors :: "TransformationError list option"
  warnings :: "string list option"
  unmappedFields :: "string list option"

subsection \<open>Nested paths\<close>

fun walkPath :: "heap \<Rightarrow> jsval \<Rightarrow> string list \<Rightarrow> jsval" where
  "walkPath h current [] = current"
| "walkPath h current (part # parts) =
     (if current = Null \<or> current = Undefined then Undefined
      else walkPath h (getProperty h current part) parts)"

definition getNestedValue :: "heap \<Rightarrow> jsval \<Rightarrow> string \<Rightarrow> js_error + jsval" where
  "getNestedValue h obj path =
     (if path = [] then Inl PathEmpty else Inr (walkPath h obj (split path ''.'')))"

text \<open>
  The loop of \<open>setNestedValue\<close> over all parts but the last. It returns the heap together
  with the object reached or the error thrown: the objects it created on the way stay in the
  heap when a later step throws.
\<close>

fun descend :: "builtins \<Rightarrow> heap \<Rightarrow> jsval \<Rightarrow> string list \<Rightarrow> heap \<times> (js_error + jsval)" where
  "descend b h current [] = (h, Inr current)"
| "descend b h current (part # parts) =
     (case hasProperty h part current of
        Inl e \<Rightarrow> (h, Inl e)
      | Inr present \<Rightarrow>
          if present then descend b h (getProperty h current part) parts
          else (case alloc h emptyObject of
                  (a, h1) \<Rightarrow>
                    (case setProperty b h1 current part (Ref a) of
                       Inl e \<Rightarrow> (h1, Inl e)
                     | Inr h2 \<Rightarrow> descend b h2 (getProperty h2 current part) parts)))"

definition setNestedValue ::
  "builtins \<Rightarrow> heap \<Rightarrow> jsval \<Rightarrow> string \<Rightarrow> jsval \<Rightarrow> heap \<times> (js_error + unit)" where
  "setNestedValue b h obj path v =
     (if path = [] then (h, Inl PathEmpty)
      else
        (let parts = split path ''.''
         in case descend b h obj (butlast parts) of
              (h1, Inl e) \<Rightarrow> (h1, Inl e)
            | (h1, Inr current) \<Rightarrow>
                (case setProperty b h1 current (last parts) v of
                   Inl e \<Rightarrow> (h1, Inl e)
                 | Inr h2 \<Rightarrow> (h2, Inr ()))))"

subsection \<open>Transformation rules\<close>

definition applyFormatTransformation ::
  "builtins \<Rightarrow> heap \<Rightarrow> jsval \<Rightarrow> TransformationRule \<Rightarrow> js_error + jsval" where
  "applyFormatTransformation b h v rule =
     (let params = (case rule_params rule of Some p \<Rightarrow> p | None \<Rightarrow> noParams);
          fromTag = param_from params;
          toTag = param_to params
      in if fromTag = Some ''string'' \<and> toTag = Some ''number'' then
           (let num = parseFloat (String b h v)
            in if num = NaN then Inl (CannotConvertNumber (String b h v)) else Inr (Num num))
         else if fromTag = Some ''number'' \<and> toTag = Some ''string'' then
           Inr (Str (String b h v))
         else if fromTag = Some ''string'' \<and> toTag = Some ''boolean'' then
           (let strValue = toLowerCase (String b h v)
            in if strValue \<in> set [''true'', ''1'', ''yes'', ''on''] then Inr (Bool True)
               else if strValue \<in> set [''false'', ''0'', ''no'', ''off''] then Inr (Bool False)
               else Inl (CannotConvertBoolean (String b h v)))
         else if fromTag = Some ''boolean'' \<and> toTag = Some ''string'' then
           Inr (Str (if truthy v then ''true'' else ''false''))
         else if fromTag = Some ''date'' \<and> toTag = Some ''date-time'' then
           (case parseDate b (String b h v) of
              None \<Rightarrow> Inl (InvalidDate (String b h v))
            | Some isoText \<Rightarrow> Inr (Str isoText))
         else if fromTag = Some ''date-time'' \<and> toTag = Some ''date'' then
           (case parseDate b (String b h v) of
              None \<Rightarrow> Inl (InvalidDateTime (String b h v))
            | Some isoText \<Rightarrow> Inr (Str (hd (split isoText ''T''))))
         else Inr v)"

definition separatorOr :: "string \<Rightarrow> TransformationRule \<Rightarrow> string" where
  "separatorOr dflt rule =
     (case rule_params rule of
        None \<Rightarrow> dflt
      | Some p \<Rightarrow> (case param_separator p of
                     None \<Rightarrow> dflt
                   | Some s \<Rightarrow> if s = [] then dflt else s))"

text \<open>
  \<open>applyTransformation\<close> for a rule that is present. \<open>split\<close> creates a new array, so the heap
  is returned as well.
\<close>

definition applyTransformation ::
  "builtins \<Rightarrow> heap \<Rightarrow> jsval \<Rightarrow> TransformationRule \<Rightarrow> heap \<times> (js_error + jsval)" where
  "applyTransformation b h v rule =
     (if rule_type rule = ''direct'' then (h, Inr v)
      else if rule_type rule = ''format'' then (h, applyFormatTransformation b h v rule)
      else if rule_type rule = ''split'' then
        (case v of
           Str s \<Rightarrow>
             (case alloc h (arrayOf (map (\<lambda>piece. Str (trim piece)) (split s (separatorOr '','' rule)))) of
                (a, h1) \<Rightarrow> (h1, Inr (Ref a)))
         | _ \<Rightarrow> (h, Inl SplitNeedsString))
      else if rule_type rule = ''join'' then
        (case v of
           Ref a \<Rightarrow>
             (if a < length h \<and> isArray (h ! a)
              then (h, Inr (Str (joinArray b h a (separatorOr '', '' rule))))
              else (h, Inl JoinNeedsArray))
         | _ \<Rightarrow> (h, Inl JoinNeedsArray))
      else if rule_type rule = ''lookup'' then
        (case (case rule_params rule of Some p \<Rightarrow> param_table p | None \<Rightarrow> None) of
           None \<Rightarrow> (h, Inl LookupNeedsTable)
         | Some lookupTable \<Rightarrow>
             (case map_of lookupTable (String b h v) of
                None \<Rightarrow> (h, Inr v)
              | Some x \<Rightarrow> (h, Inr (if x = Null \<or> x = Undefined then v else x))))
      else if rule_type rule = ''custom'' then
        (case rule_function rule of
           None \<Rightarrow> (h, Inl CustomNeedsFunction)
         | Some f \<Rightarrow> if f = [] then (h, Inl CustomNeedsFunction) else (h, Inl CustomNotImplemented))
      else (h, Inr v))"

subsection \<open>transformPayload\<close>

definition invalidMapping :: "FieldMapping \<Rightarrow> bool" where
  "invalidMapping fm =
     (sourceField fm = None \<or> sourceField fm = Some [] \<or> targetField fm = None
      \<or> targetField fm = Some [])"

definition fieldOf :: "FieldMapping \<Rightarrow> string" where
  "fieldOf fm = (case sourceField fm of None \<Rightarrow> ''undefined'' | Some s \<Rightarrow> s)"

text \<open>
  The last step of an iteration: write the value at the target path. A throw from
  \<open>setNestedValue\<close> reaches the outer \<open>catch\<close>, which reads the source value again.
\<close>

definition writeTarget ::
  "builtins \<Rightarrow> jsval \<Rightarrow> jsval \<Rightarrow> string \<Rightarrow> string \<Rightarrow> jsval \<Rightarrow> heap
     \<Rightarrow> heap \<times> TransformationError list" where
  "writeTarget b sourcePayload output src tgt v h =
     (case setNestedValue b h output tgt v of
        (h1, Inr u) \<Rightarrow> (h1, [])
      | (h1, Inl e) \<Rightarrow>
          (h1, [\<lparr>field = src, error = FailedToTransform e,
                 originalValue = (case getNestedValue h1 sourcePayload src of
                                    Inr x \<Rightarrow> x | Inl e' \<Rightarrow> Undefined)\<rparr>]))"

text \<open>
  One iteration of the loop over the field correspondences: the heap it leaves and the
  errors it pushes (none or one).
\<close>

definition transformField ::
  "builtins \<Rightarrow> jsval \<Rightarrow> jsval \<Rightarrow> FieldMapping \<Rightarrow> heap \<Rightarrow> heap \<times> TransformationError list" where
  "transformField b sourcePayload output fm h =
     (if invalidMapping fm then
        (h, [\<lparr>field = fieldOf fm,
               error = InvalidFieldMapping (sourceField fm) (targetField fm),
               originalValue = Undefined\<rparr>])
      else
        (let src = the (sourceField fm); tgt = the (targetField fm)
         in case getNestedValue h sourcePayload src of
              Inl e \<Rightarrow>
                (h, [\<lparr>field = src, error = FailedToTransform e, originalValue = Undefined\<rparr>])
            | Inr v \<Rightarrow>
                if required fm \<and> (v = Undefined \<or> v = Null) then
                  (h, [\<lparr>field = src, error = RequiredMissing, originalValue = Undefined\<rparr>])
                else if v = Undefined then (h, [])
                else (case transformation fm of
                        None \<Rightarrow> writeTarget b sourcePayload output src tgt v h
                      | Some rule \<Rightarrow>
                          (case applyTransformation b h v rule of
                             (h1, Inl e) \<Rightarrow>
                               (h1, [\<lparr>field = src, error = TransformationFailed e,
                                      originalValue = v\<rparr>])
                           | (h1, Inr tv) \<Rightarrow>
                               writeTarget b sourcePayload output src tgt tv h1))))"

fun applyFieldMappings ::
  "builtins \<Rightarrow> jsval \<Rightarrow> jsval \<Rightarrow> FieldMapping list \<Rightarrow> heap \<Rightarrow> TransformationError list
     \<Rightarrow> heap \<times> TransformationError list" where
  "applyFieldMappings b sourcePayload output [] h errs = (h, errs)"
| "applyFieldMappings b sourcePayload output (fm # fms) h errs =
     (case transformField b sourcePayload output fm h of
        (h1, es) \<Rightarrow> applyFieldMappings b sourcePayload output fms h1 (errs @ es))"

text \<open>
  \<open>transformPayload\<close> returns its result and the heap it leaves. \<open>Object.keys\<close> of a \<open>null\<close>
  or \<open>undefined\<close> payload throws outside every \<open>try\<close>, so the call itself fails then.
\<close>

definition transformPayload ::
  "builtins \<Rightarrow> heap \<Rightarrow> jsval \<Rightarrow> SchemaMapping \<Rightarrow> js_error + (PayloadTransformResult \<times> heap)" where
  "transformPayload b h sourcePayload mapping =
     (case alloc h emptyObject of
        (out, h0) \<Rightarrow>
          (case objectKeys h0 sourcePayload of
             Inl e \<Rightarrow> Inl e
           | Inr keys \<Rightarrow>
               (let unmapped =
                      filter (\<lambda>key. Some key \<notin> set (map sourceField (fieldMappings mapping))) keys
                in case applyFieldMappings b sourcePayload (Ref out) (fieldMappings mapping) h0 [] of
                     (h1, errs) \<Rightarrow>
                       Inr (\<lparr>success = (errs = []),
                             transformedPayload = (if errs = [] then Some (Ref out) else None),
                             errors = (if errs \<noteq> [] then Some errs else None),
                             warnings =
                               (if unmapped \<noteq> []
                                then Some [''Unmapped source fields: '' @ joinWith '', '' unmapped]
                                else None),
                             unmappedFields = (if unmapped \<noteq> [] then Some unmapped else None)\<rparr>,
                            h1))))"

section \<open>StorageService\<close>

text \<open>
  The storage service handles configurations as plain JSON data, whatever their shape. No
  statement about it depends on two names sharing one object, so values are trees here. An
  object lists its properties in insertion order, and a property may hold \<open>undefined\<close>.
\<close>

datatype json =
    JUndefined
  | JNull
  | JBool bool
  | JNum jsnum
  | JStr string
  | JArr "json list"
  | JObj "(string \<times> json) list"

definition jnullish :: "json \<Rightarrow> bool" where
  "jnullish v = (v = JNull \<or> v = JUndefined)"

definition jtruthy :: "json \<Rightarrow> bool" where
  "jtruthy v =
     (case v of
        JUndefined \<Rightarrow> False
      | JNull \<Rightarrow> False
      | JBool x \<Rightarrow> x
      | JNum n \<Rightarrow> n \<noteq> NaN \<and> n \<noteq> Fin 0 \<and> n \<noteq> NegZero
      | JStr s \<Rightarrow> s \<noteq> []
      | _ \<Rightarrow> True)"

text \<open>\<open>a ?? b\<close>.\<close>

definition coalesce :: "json \<Rightarrow> json \<Rightarrow> json" where
  "coalesce a b = (if jnullish a then b else a)"

text \<open>\<open>value[key]\<close> on a value that is neither \<open>null\<close> nor \<open>undefined\<close>.\<close>

definition jget :: "json \<Rightarrow> string \<Rightarrow> json" where
  "jget v key =
     (case v of
        JObj ps \<Rightarrow> (case map_of ps key of Some x \<Rightarrow> x | None \<Rightarrow> JUndefined)
      | JArr xs \<Rightarrow>
          (if key = ''length'' then JNum (Fin (of_nat (length xs)))
           else (case arrayIndex key of
                   Some i \<Rightarrow> if i < length xs then xs ! i else JUndefined
                 | None \<Rightarrow> JUndefined))
      | JStr s \<Rightarrow>
          (if key = ''length'' then JNum (Fin (of_nat (length (codeUnits s))))
           else (case arrayIndex key of
                   Some i \<Rightarrow> if i < length (codeUnits s) then JStr (codeUnits s ! i) else JUndefined
                 | None \<Rightarrow> JUndefined))
      | _ \<Rightarrow> JUndefined)"

definition isString :: "json \<Rightarrow> bool" where
  "isString v = (case v of JStr s \<Rightarrow> True | _ \<Rightarrow> False)"

definition isArrayJson :: "json \<Rightarrow> bool" where
  "isArrayJson v = (case v of JArr xs \<Rightarrow> True | _ \<Rightarrow> False)"

text \<open>The conversion of a value to a property key.\<close>

fun jsonToString :: "builtins \<Rightarrow> json \<Rightarrow> string" where
  "jsonToString b JUndefined = ''undefined''"
| "jsonToString b JNull = ''null''"
| "jsonToString b (JBool x) = (if x then ''true'' else ''false'')"
| "jsonToString b (JNum n) = numberToString b n"
| "jsonToString b (JStr s) = s"
| "jsonToString b (JArr xs) =
     joinWith '','' (map (\<lambda>e. if e = JUndefined \<or> e = JNull then [] else jsonToString b e) xs)"
| "jsonToString b (JObj ps) = ''[object Object]''"

text \<open>\<open>Object.entries\<close> of an object or an array.\<close>

definition jsonEntries :: "json \<Rightarrow> (string \<times> json) list" where
  "jsonEntries v =
     (case v of
        JObj ps \<Rightarrow> map (\<lambda>k. (k, jget v k)) (orderedKeys (map fst ps))
      | JArr xs \<Rightarrow> zip (map showNat [0..<length xs]) xs
      | _ \<Rightarrow> [])"

text \<open>
  What \<open>JSON.stringify\<close> followed by \<open>JSON.parse\<close> keeps of a value: a property holding
  \<open>undefined\<close> is dropped, \<open>undefined\<close> in an array and a number that is not finite
  become \<open>null\<close>, and the negative zero becomes 0.
\<close>

fun jsonRoundTrip :: "json \<Rightarrow> json" where
  "jsonRoundTrip (JObj ps) =
     JObj (filter (\<lambda>(k, v). v \<noteq> JUndefined) (map (\<lambda>(k, v). (k, jsonRoundTrip v)) ps))"
| "jsonRoundTrip (JArr xs) = JArr (map (\<lambda>x. if x = JUndefined then JNull else jsonRoundTrip x) xs)"
| "jsonRoundTrip (JNum n) = (case n of Fin q \<Rightarrow> JNum n | NegZero \<Rightarrow> JNum (Fin 0) | _ \<Rightarrow> JNull)"
| "jsonRoundTrip v = v"

subsection \<open>State\<close>

text \<open>The lines the service writes to the console, by the statement that writes them.\<close>

datatype consoleMessage =
    LoadedMappings
  | NoExistingFile
  | CouldNotLoad
  | SavedMappings
  | ReadOnlyFileSystem
  | CouldNotSave string

datatype consoleLine = LogLine consoleMessage | WarnLine consoleMessage

text \<open>
  The mappings file: missing, present but not readable as a JSON document, or holding a
  document, which is an object from ids to configurations.
\<close>

datatype mappingsFileState = Missing | Unreadable | Content "(string \<times> json) list"

text \<open>The static fields of the service, the mappings file and the console.\<close>

record StorageState =
  storage :: "(string \<times> json) list"
  initialized :: bool
  fileSystemWritable :: bool
  mappingsFile :: mappingsFileState
  console :: "consoleLine list"

text \<open>What \<open>fs.writeFile\<close> does when it is called: it succeeds, or it throws with a message.\<close>

datatype writeOutcome = WriteOk | WriteFails string

definition initialize :: "StorageState \<Rightarrow> StorageState" where
  "initialize s =
     (if initialized s then s
      else (case mappingsFile s of
              Content document \<Rightarrow>
                s\<lparr>initialized := True, storage := document,
                  console := console s @ [LogLine LoadedMappings]\<rparr>
            | Missing \<Rightarrow>
                s\<lparr>initialized := True, storage := [],
                  console := console s @ [LogLine NoExistingFile]\<rparr>
            | Unreadable \<Rightarrow>
                s\<lparr>initialized := True, storage := [],
                  console := console s @ [LogLine CouldNotLoad]\<rparr>))"

definition loadMappings :: "StorageState \<Rightarrow> StorageState \<times> (string \<times> json) list" where
  "loadMappings s = (initialize s, storage (initialize s))"

definition saveMappings ::
  "writeOutcome \<Rightarrow> StorageState \<Rightarrow> (string \<times> json) list \<Rightarrow> StorageState" where
  "saveMappings w s mappings =
     (let s1 = s\<lparr>storage := mappings\<rparr>
      in if \<not> fileSystemWritable s1 then
           s1\<lparr>console := console s1 @ [LogLine ReadOnlyFileSystem]\<rparr>
         else (case w of
                 WriteOk \<Rightarrow>
                   s1\<lparr>mappingsFile :=
                        Content (map (\<lambda>(k, v). (k, jsonRoundTrip v))
                                   (filter (\<lambda>(k, v). v \<noteq> JUndefined) mappings)),
                      console := console s1 @ [LogLine SavedMappings]\<rparr>
               | WriteFails errorMsg \<Rightarrow>
                   if includesStr errorMsg ''EROFS'' \<or> includesStr errorMsg ''read-only'' then
                     s1\<lparr>fileSystemWritable := False,
                        console := console s1 @ [WarnLine ReadOnlyFileSystem]\<rparr>
                   else
                     s1\<lparr>console := console s1 @ [WarnLine (CouldNotSave errorMsg)]\<rparr>))"

text \<open>\<open>getMapping\<close>: \<open>mappings[id] || null\<close>, \<open>null\<close> being \<open>None\<close>.\<close>

definition getMapping :: "StorageState \<Rightarrow> string \<Rightarrow> StorageState \<times> json option" where
  "getMapping s ident =
     (case loadMappings s of
        (s1, mappings) \<Rightarrow>
          (s1, (case map_of mappings ident of
                  Some m \<Rightarrow> if jtruthy m then Some m else None
                | None \<Rightarrow> None)))"

subsection \<open>Normalization and validation\<close>

definition normalizeFieldMapping :: "json \<Rightarrow> js_error + json" where
  "normalizeFieldMapping fm =
     (if jnullish fm then Inl TypeError
      else Inr (JObj
        [(''sourceField'', coalesce (jget fm ''sourceField'') (jget fm ''source_field'')),
         (''targetField'', coalesce (jget fm ''targetField'') (jget fm ''target_field'')),
         (''transformation'', coalesce (jget fm ''transformation'') JNull),
         (''confidence'', coalesce (jget fm ''confidence'') JNull),
         (''required'', coalesce (jget fm ''required'') (JBool False)),
         (''sourceType'',
            coalesce (jget fm ''sourceType'') (coalesce (jget fm ''source_type'') JUndefined)),
         (''targetType'',
            coalesce (jget fm ''targetType'') (coalesce (jget fm ''target_type'') JUndefined))]))"

text \<open>\<open>fieldMappings.map(fm => normalizeFieldMapping(fm))\<close>: the first throw ends the map.\<close>

fun normalizeAll :: "json list \<Rightarrow> js_error + json list" where
  "normalizeAll [] = Inr []"
| "normalizeAll (fm # fms) =
     (case normalizeFieldMapping fm of
        Inl e \<Rightarrow> Inl e
      | Inr n \<Rightarrow> (case normalizeAll fms of Inl e \<Rightarrow> Inl e | Inr ns \<Rightarrow> Inr (n # ns)))"

text \<open>The loop of \<open>validateMappingStructure\<close> over the entries of \<open>fieldMappings\<close>.\<close>

fun validateEntries :: "json list \<Rightarrow> js_error + bool" where
  "validateEntries [] = Inr True"
| "validateEntries (fm # fms) =
     (if jnullish fm then Inl TypeError
      else if \<not> jtruthy (coalesce (jget fm ''sourceField'') (jget fm ''source_field''))
              \<or> \<not> jtruthy (coalesce (jget fm ''targetField'') (jget fm ''target_field''))
      then Inr False
      else validateEntries fms)"

definition validateMappingStructure :: "json \<Rightarrow> js_error + bool" where
  "validateMappingStructure mapping =
     (if \<not> jtruthy mapping
         \<or> \<not> isString (jget mapping ''id'')
         \<or> \<not> isString (jget mapping ''name'')
         \<or> \<not> jtruthy (jget mapping ''sourceEndpoint'')
         \<or> \<not> jtruthy (jget mapping ''targetEndpoint'')
         \<or> \<not> isArrayJson (jget mapping ''fieldMappings'')
      then Inr False
      else (case jget mapping ''fieldMappings'' of
              JArr fms \<Rightarrow> validateEntries fms
            | _ \<Rightarrow> Inr False))"

subsection \<open>saveMapping\<close>

text \<open>
  The configuration \<open>saveMapping\<close> stores, for a configuration object with the properties
  \<open>mapping\<close>: its correspondences normalized when \<open>fieldMappings\<close> is an array, \<open>updatedAt\<close>
  set to \<open>now\<close>, the time stamp \<open>new Date().toISOString()\<close> gives, and \<open>createdAt\<close> set to
  it as well unless it is there already. Normalizing a \<open>null\<close> entry throws.
\<close>

definition stampedMapping :: "string \<Rightarrow> (string \<times> json) list \<Rightarrow> js_error + (string \<times> json) list" where
  "stampedMapping now mapping =
     (case (case jget (JObj mapping) ''fieldMappings'' of
              JArr fms \<Rightarrow>
                (case normalizeAll fms of
                   Inl e \<Rightarrow> Inl e
                 | Inr ns \<Rightarrow> Inr (updateProp ''fieldMappings'' (JArr ns) mapping))
            | _ \<Rightarrow> Inr mapping) of
        Inl e \<Rightarrow> Inl e
      | Inr m1 \<Rightarrow>
          (let m2 = updateProp ''updatedAt'' (JStr now) m1
           in Inr (if \<not> jtruthy (jget (JObj m2) ''createdAt'')
                   then updateProp ''createdAt'' (jget (JObj m2) ''updatedAt'') m2
                   else m2)))"

text \<open>
  \<open>saveMapping\<close>. The result is the state and whether the call returned or threw.
\<close>

definition saveMapping ::
  "builtins \<Rightarrow> string \<Rightarrow> writeOutcome \<Rightarrow> StorageState \<Rightarrow> (string \<times> json) list
     \<Rightarrow> StorageState \<times> (js_error + unit)" where
  "saveMapping b now w s mapping =
     (case loadMappings s of
        (s1, mappings) \<Rightarrow>
          (case stampedMapping now mapping of
             Inl e \<Rightarrow> (s1, Inl e)
           | Inr m3 \<Rightarrow>
               (saveMappings w s1
                  (updateProp (jsonToString b (jget (JObj m3) ''id'')) (JObj m3) mappings),
                Inr ())))"

subsection \<open>importMappings\<close>

datatype importError =
    InvalidStructure string
  | FailedToImport string js_error
  | FailedToParse string

record ImportResult =
  imported :: nat
  importErrors :: "importError list"

text \<open>One iteration of the loop over the entries of the parsed document.\<close>

definition importEntry ::
  "string \<times> json \<Rightarrow> (string \<times> json) list \<times> ImportResult
     \<Rightarrow> (string \<times> json) list \<times> ImportResult" where
  "importEntry entry acc =
     (case (entry, acc) of
        ((ident, mapping), (mappings, res)) \<Rightarrow>
          (case validateMappingStructure mapping of
             Inl e \<Rightarrow> (mappings, res\<lparr>importErrors := importErrors res @ [FailedToImport ident e]\<rparr>)
           | Inr False \<Rightarrow>
               (mappings, res\<lparr>importErrors := importErrors res @ [InvalidStructure ident]\<rparr>)
           | Inr True \<Rightarrow>
               (case (mapping, jget mapping ''fieldMappings'') of
                  (JObj ps, JArr fms) \<Rightarrow>
                    (case normalizeAll fms of
                       Inl e \<Rightarrow>
                         (mappings,
                          res\<lparr>importErrors := importErrors res @ [FailedToImport ident e]\<rparr>)
                     | Inr ns \<Rightarrow>
                         (updateProp ident (JObj (updateProp ''fieldMappings'' (JArr ns) ps)) mappings,
                          res\<lparr>imported := Suc (imported res)\<rparr>))
                | _ \<Rightarrow>
                    (mappings,
                     res\<lparr>importErrors := importErrors res @ [FailedToImport ident TypeError]\<rparr>))))"

text \<open>
  \<open>importMappings\<close>, given what \<open>JSON.parse\<close> made of the text: the document, or the message
  of the error it threw. A document that is not an object is refused before the store is
  loaded; an array is an object too, its entries keyed by their indices.
\<close>

definition importMappings ::
  "writeOutcome \<Rightarrow> StorageState \<Rightarrow> string + json \<Rightarrow> StorageState \<times> ImportResult" where
  "importMappings w s parsed =
     (case parsed of
        Inl message \<Rightarrow> (s, \<lparr>imported = 0, importErrors = [FailedToParse message]\<rparr>)
      | Inr d \<Rightarrow>
          if (case d of JObj ps \<Rightarrow> True | JArr xs \<Rightarrow> True | _ \<Rightarrow> False) then
            (case loadMappings s of
               (s1, mappings) \<Rightarrow>
                 (case foldl (\<lambda>acc entry. importEntry entry acc)
                         (mappings, \<lparr>imported = 0, importErrors = []\<rparr>) (jsonEntries d) of
                    (mappings1, res) \<Rightarrow> (saveMappings w s1 mappings1, res)))
          else (s, \<lparr>imported = 0, importErrors = [FailedToParse ''Invalid JSON format'']\<rparr>))"

subsection \<open>Shapes of stored configurations\<close>

definition canonicalKeys :: "string list" where
  "canonicalKeys =
     [''sourceField'', ''targetField'', ''transformation'', ''confidence'', ''required'',
      ''sourceType'', ''targetType'']"

text \<open>A field correspondence that consists of exactly the canonical keys.\<close>

definition canonicalEntry :: "json \<Rightarrow> bool" where
  "canonicalEntry e = (case e of JObj ps \<Rightarrow> map fst ps = canonicalKeys | _ \<Rightarrow> False)"

text \<open>The field correspondences of a configuration: the elements of its \<open>fieldMappings\<close> array.\<close>

definition correspondences :: "json \<Rightarrow> json list" where
  "correspondences c = (case jget c ''fieldMappings'' of JArr fms \<Rightarrow> fms | _ \<Rightarrow> [])"

text \<open>
  The structural validity the specification states: non-empty string \<open>id\<close> and \<open>name\<close>, a
  \<open>sourceEndpoint\<close> and a \<open>targetEndpoint\<close>, and a sequence of correspondences each with
  both field paths populated.
\<close>

definition nonEmptyString :: "json \<Rightarrow> bool" where
  "nonEmptyString v = (case v of JStr s \<Rightarrow> s \<noteq> [] | _ \<Rightarrow> False)"

definition structurallyValid :: "json \<Rightarrow> bool" where
  "structurallyValid c =
     (nonEmptyString (jget c ''id'') \<and> nonEmptyString (jget c ''name'')
      \<and> jtruthy (jget c ''sourceEndpoint'') \<and> jtruthy (jget c ''targetEndpoint'')
      \<and> isArrayJson (jget c ''fieldMappings'')
      \<and> list_all (\<lambda>fm. jtruthy (jget fm ''sourceField'') \<and> jtruthy (jget fm ''targetField''))
           (correspondences c))"

text \<open>
  What the check of \<open>importMappings\<close> establishes: the same with \<open>id\<close> and \<open>name\<close> only
  required to be strings.
\<close>

definition acceptedStructure :: "json \<Rightarrow> bool" where
  "acceptedStructure c =
     (isString (jget c ''id'') \<and> isString (jget c ''name'')
      \<and> jtruthy (jget c ''sourceEndpoint'') \<and> jtruthy (jget c ''targetEndpoint'')
      \<and> isArrayJson (jget c ''fieldMappings'')
      \<and> list_all (\<lambda>fm. jtruthy (jget fm ''sourceField'') \<and> jtruthy (jget fm ''targetField''))
           (correspondences c))"

section \<open>Example data\<close>

definition stringSchema :: SchemaObject where
  "stringSchema = SchemaObject STRING None None None"

definition numberSchema :: SchemaObject where
  "numberSchema = SchemaObject NUMBER None None None"

definition stringArraySchema :: SchemaObject where
  "stringArraySchema = SchemaObject ARRAY None None (Some stringSchema)"

definition taggedSchema :: SchemaObject where
  "taggedSchema = SchemaObject OBJECT None (Some [(''tags'', stringArraySchema)]) None"

definition customerSchema :: SchemaObject where
  "customerSchema = SchemaObject OBJECT None
     (Some [(''email'', stringSchema), (''age'', numberSchema), (''tags'', stringArraySchema)]) None"

definition userSchema :: SchemaObject where
  "userSchema = SchemaObject OBJECT None
     (Some [(''mail'', stringSchema), (''email'', stringSchema), (''Age'', stringSchema)]) None"

text \<open>
  The examples fix one choice of the two built-ins that are parameters of the model. None of
  the examples prints a number or reads a date.
\<close>

definition exampleBuiltins :: builtins where
  "exampleBuiltins = \<lparr>numberToString = (\<lambda>n. ''0''), parseDate = (\<lambda>s. None)\<rparr>"

definition object :: "(string \<times> jsval) list \<Rightarrow> jsobj" where
  "object ps = \<lparr>isArray = False, props = ps, arrLength = 0\<rparr>"

definition direct :: "string \<Rightarrow> string \<Rightarrow> FieldMapping" where
  "direct src tgt =
     \<lparr>sourceField = Some src, targetField = Some tgt, transformation = None, required = False\<rparr>"

definition stringToNumberRule :: TransformationRule where
  "stringToNumberRule =
     \<lparr>rule_type = ''format'',
      rule_params = Some (noParams\<lparr>param_from := Some ''string'', param_to := Some ''number''\<rparr>),
      rule_function = None\<rparr>"

definition amountToTotal :: SchemaMapping where
  "amountToTotal =
     \<lparr>mapping_id = ''amount-total'', mapping_name = ''Amount to total'',
      fieldMappings = [(direct ''amount'' ''total'')\<lparr>transformation := Some stringToNumberRule\<rparr>]\<rparr>"

definition profileMapping :: SchemaMapping where
  "profileMapping =
     \<lparr>mapping_id = ''profile'', mapping_name = ''User to profile'',
      fieldMappings = [direct ''user'' ''profile'', direct ''age'' ''profile.age'']\<rparr>"

definition profileHeap :: heap where
  "profileHeap =
     [object [(''user'', Ref 1), (''age'', Num (Fin 3))], object [(''name'', Str ''Jane'')]]"



text \<open>
  A configuration with two correspondences, the first keyed in snake case and the second in
  camel case, the second carrying a description; and a store that has not been loaded yet
  and has no mappings file.
\<close>

definition customerSync :: "(string \<times> json) list" where
  "customerSync =
     [(''id'', JStr ''customer-sync''),
      (''name'', JStr ''Customer sync''),
      (''sourceEndpoint'',
         JObj [(''system'', JStr ''A''), (''path'', JStr ''/customers''), (''method'', JStr ''POST'')]),
      (''targetEndpoint'',
         JObj [(''system'', JStr ''B''), (''path'', JStr ''/users''), (''method'', JStr ''POST'')]),
      (''fieldMappings'',
         JArr [JObj [(''source_field'', JStr ''FirstName''), (''target_field'', JStr ''first_name'')],
               JObj [(''sourceField'', JStr ''Email''), (''targetField'', JStr ''email''),
                     (''description'', JStr ''contact address'')]])]"

definition freshStore :: StorageState where
  "freshStore =
     \<lparr>storage = [], initialized = False, fileSystemWritable = True, mappingsFile = Missing,
      console = []\<rparr>"

definition timeStamp :: string where
  "timeStamp = ''2024-05-01T10:00:00.000Z''"

text \<open>
  The configuration the save tool builds from the name \<open>""\<close> and the correspondences
  \<open>[{"sourceField":"FirstName"}]\<close>: an empty name and a correspondence without a target
  path. A document to import with one well-formed entry, keyed in snake case, and one whose
  correspondence lacks its target path; a document whose only entry has an empty \<open>id\<close> and
  \<open>name\<close>; and a store whose mappings file holds a configuration written before
  normalization existed.
\<close>

definition endpointA :: json where
  "endpointA = JObj [(''system'', JStr ''A''), (''path'', JStr ''/customers''), (''method'', JStr ''POST'')]"

definition endpointB :: json where
  "endpointB = JObj [(''system'', JStr ''B''), (''path'', JStr ''/users''), (''method'', JStr ''POST'')]"

definition draftMapping :: "(string \<times> json) list" where
  "draftMapping =
     [(''id'', JStr ''draft''),
      (''name'', JStr []),
      (''sourceEndpoint'', endpointA),
      (''targetEndpoint'', endpointB),
      (''fieldMappings'', JArr [JObj [(''sourceField'', JStr ''FirstName'')]]),
      (''createdAt'', JStr ''2024-04-30T08:00:00.000Z''),
      (''updatedAt'', JStr ''2024-04-30T08:00:00.000Z'')]"

definition importDocument :: json where
  "importDocument =
     JObj [(''good'',
            JObj [(''id'', JStr ''good''), (''name'', JStr ''Good''),
                  (''sourceEndpoint'', endpointA), (''targetEndpoint'', endpointB),
                  (''fieldMappings'',
                     JArr [JObj [(''source_field'', JStr ''FirstName''),
                                 (''target_field'', JStr ''first_name''),
                                 (''description'', JStr ''given name'')]])]),
           (''bad'',
            JObj [(''id'', JStr ''bad''), (''name'', JStr ''Bad''),
                  (''sourceEndpoint'', endpointA), (''targetEndpoint'', endpointB),
                  (''fieldMappings'', JArr [JObj [(''sourceField'', JStr ''FirstName'')]])])]"

definition namelessDocument :: json where
  "namelessDocument =
     JObj [(''x'',
            JObj [(''id'', JStr []), (''name'', JStr []),
                  (''sourceEndpoint'', endpointA), (''targetEndpoint'', endpointB),
                  (''fieldMappings'', JArr [])])]"



section \<open>Field-path extraction\<close>

lemma getFieldPaths_array:
  "getFieldPaths (SchemaObject ARRAY f ps (Some itemSchema)) pre =
     arrayPath pre # getFieldPaths itemSchema (arrayPath pre)"
  by simp

lemma getFieldPaths_scalar_items:
  "schema_type s \<noteq> OBJECT \<Longrightarrow> schema_type s \<noteq> ARRAY \<Longrightarrow> getFieldPaths s pre = []"
  by (cases s) (auto split: DataType.splits)

text \<open>
  C3. An array node with an \<open>items\<close> node must yield an entry for the items node at
  \<open>prefix[]\<close> (\<open>[]\<close> for the empty prefix) in every extraction. \<open>SchemaService.getFieldPaths\<close>
  pushes that entry before it recurses; \<open>MappingService.extractFields\<close> only recurses. For an
  array of strings the first returns the path \<open>[]\<close> and the second returns no field at all.
\<close>

theorem extractFields_omits_items_entry:
  "getFieldPaths (SchemaObject ARRAY None None (Some (SchemaObject STRING None None None))) []
     = [''[]'']
   \<and> extractFields (SchemaObject ARRAY None None (Some (SchemaObject STRING None None None))) []
     = []"
  by (simp add: arrayPath_def)

section \<open>Similarity scoring\<close>

lemma includesStr_refl: "includesStr s s"
  by (cases s) simp_all

lemma fieldScore_le_1: "fieldScore sf tf \<le> 1"
  by (simp add: fieldScore_def calculateFieldSimilarity_def Let_def)

lemma checkSynonyms_nonneg: "0 \<le> checkSynonyms a b"
  by (simp add: checkSynonyms_def)

lemma fieldScore_same:
  assumes "fst sf = fst tf" and "schema_type (snd sf) = schema_type (snd tf)"
  shows "fieldScore sf tf = 1"
proof -
  have "0 \<le> checkSynonyms (normalizeName (fst tf)) (normalizeName (fst tf)) * 0.3"
    using checkSynonyms_nonneg by simp
  then show ?thesis
    using assms
    by (simp add: fieldScore_def calculateFieldSimilarity_def Let_def includesStr_refl
        calculateTypeCompatibility_def min_def)
qed

lemma set_suggestMappings:
  "set (suggestMappings src tgt thr) =
     (\<Union>sf \<in> set (extractFields src []). \<Union>tf \<in> set (extractFields tgt []).
        set (suggestPair thr sf tf))"
  by (simp add: suggestMappings_def Let_def)

lemma concat_nested_product:
  "concat (map (\<lambda>x. concat (map (\<lambda>y. f x y) ys)) xs) =
     concat (map (\<lambda>(x, y). f x y) (List.product xs ys))"
  by (induction xs) (simp_all add: map_concat comp_def)

lemma concat_singletons_filter:
  "concat (map (\<lambda>p. if P p then [g p] else []) ps) = map g (filter P ps)"
  by (induction ps) simp_all

text \<open>
  For the fields the scorer extracts, a source field and a target field with the same path
  and the same declared type give a suggestion at the default threshold, of confidence at
  least 0.8 and of type \<open>direct\<close>.
\<close>

lemma suggestMappings_extracted_fields:
  assumes "(p, ss) \<in> set (extractFields src [])"
    and "(p, ts) \<in> set (extractFields tgt [])"
    and "schema_type ss = schema_type ts"
  shows "\<exists>s \<in> set (suggestMappings src tgt DEFAULT_CONFIDENCE_THRESHOLD).
           sug_sourceField s = p \<and> sug_targetField s = p \<and> confidence s \<ge> 0.8
           \<and> map_option rule_type (suggestedTransformation s) = Some ''direct''"
proof -
  have sc: "fieldScore (p, ss) (p, ts) = 1"
    using assms(3) by (simp add: fieldScore_same)
  let ?s = "makeSuggestion (p, ss) (p, ts) 1"
  have "suggestPair DEFAULT_CONFIDENCE_THRESHOLD (p, ss) (p, ts) = [?s]"
    by (simp add: suggestPair_def sc DEFAULT_CONFIDENCE_THRESHOLD_def)
  then have "?s \<in> set (suggestMappings src tgt DEFAULT_CONFIDENCE_THRESHOLD)"
    unfolding set_suggestMappings using assms(1,2) by force
  moreover have "sug_sourceField ?s = p \<and> sug_targetField ?s = p \<and> confidence ?s \<ge> 0.8
           \<and> map_option rule_type (suggestedTransformation ?s) = Some ''direct''"
    using assms(3) by (simp add: makeSuggestion_def suggestTransformation_def)
  ultimately show ?thesis by blast
qed

lemma extractFields_customer_email:
  "(''email'', stringSchema) \<in> set (extractFields customerSchema [])"
  by (simp add: customerSchema_def stringSchema_def numberSchema_def stringArraySchema_def
      childPath_def)

lemma extractFields_user_email:
  "(''email'', stringSchema) \<in> set (extractFields userSchema [])"
  by (simp add: userSchema_def stringSchema_def childPath_def)

lemma extractFields_taggedSchema:
  "extractFields taggedSchema [] = [(''tags'', stringArraySchema)]"
  by (simp add: taggedSchema_def stringArraySchema_def stringSchema_def childPath_def
      arrayPath_def)

text \<open>
  C5. Every pair of a source field and a target field with the same name and the same
  declared type must get a suggestion of confidence at least 0.8 and of type \<open>direct\<close>. Take
  \<open>{tags: array of string}\<close> as the source and as the target. Its fields are \<open>tags\<close>, an array,
  and the items field \<open>tags[]\<close>, a string, the same on both sides. \<open>suggestMappings\<close> at the
  default threshold returns the suggestion for \<open>tags\<close>, of confidence 1 and type \<open>direct\<close>, and
  nothing else: the scorer's extraction has no entry for an items node, so the pair
  \<open>tags[]\<close>, \<open>tags[]\<close> is never scored and gets no suggestion.
\<close>

theorem suggestMappings_skips_items_fields:
  "getFieldPaths taggedSchema [] = [''tags'', ''tags[]'']
   \<and> items stringArraySchema = Some stringSchema
   \<and> map (\<lambda>s. (sug_sourceField s, sug_targetField s, confidence s,
                map_option rule_type (suggestedTransformation s)))
        (suggestMappings taggedSchema taggedSchema DEFAULT_CONFIDENCE_THRESHOLD)
       = [(''tags'', ''tags'', 1, Some ''direct'')]
   \<and> ''tags[]'' \<notin> sug_sourceField `
         set (suggestMappings taggedSchema taggedSchema DEFAULT_CONFIDENCE_THRESHOLD)"
proof -
  have sc: "fieldScore (''tags'', stringArraySchema) (''tags'', stringArraySchema) = 1"
    by (simp add: fieldScore_same)
  have sm: "suggestMappings taggedSchema taggedSchema DEFAULT_CONFIDENCE_THRESHOLD =
      [makeSuggestion (''tags'', stringArraySchema) (''tags'', stringArraySchema) 1]"
    by (simp add: suggestMappings_def extractFields_taggedSchema suggestPair_def sc
        DEFAULT_CONFIDENCE_THRESHOLD_def)
  have paths: "getFieldPaths taggedSchema [] = [''tags'', ''tags[]'']"
    by (simp add: taggedSchema_def stringArraySchema_def stringSchema_def childPath_def
        arrayPath_def)
  have its: "items stringArraySchema = Some stringSchema"
    by (simp add: stringArraySchema_def)
  show ?thesis
    unfolding sm
    by (simp add: paths its makeSuggestion_def suggestTransformation_def)
qed

text \<open>
  C6. For all schema trees and every threshold, each suggestion \<open>suggestMappings\<close> returns
  has a confidence between the threshold and 1, the result is in non-increasing order of
  confidence, and the result holds exactly the suggestions of the pairs of fields that score
  at least the threshold, each once: a pair scoring below it contributes nothing.
\<close>

theorem suggestMappings_threshold_sorted:
  "(\<forall>s \<in> set (suggestMappings src tgt thr). thr \<le> confidence s \<and> confidence s \<le> 1)
   \<and> sorted_wrt (\<lambda>a b. confidence b \<le> confidence a) (suggestMappings src tgt thr)
   \<and> mset (suggestMappings src tgt thr) =
       mset (map (\<lambda>(sf, tf). makeSuggestion sf tf (fieldScore sf tf))
              (filter (\<lambda>(sf, tf). thr \<le> fieldScore sf tf)
                 (List.product (extractFields src []) (extractFields tgt []))))"
proof (intro conjI ballI)
  fix s assume "s \<in> set (suggestMappings src tgt thr)"
  then obtain sf tf where "s \<in> set (suggestPair thr sf tf)"
    unfolding set_suggestMappings by blast
  then have s: "s = makeSuggestion sf tf (fieldScore sf tf)" and thr: "thr \<le> fieldScore sf tf"
    by (auto simp: suggestPair_def Let_def split: if_splits)
  show "thr \<le> confidence s" using s thr by (simp add: makeSuggestion_def)
  show "confidence s \<le> 1" using s fieldScore_le_1 by (simp add: makeSuggestion_def)
next
  have "sorted (map (\<lambda>s. - confidence s) (suggestMappings src tgt thr))"
    by (simp add: suggestMappings_def Let_def)
  then show "sorted_wrt (\<lambda>a b. confidence b \<le> confidence a) (suggestMappings src tgt thr)"
    by (simp add: sorted_map)
next
  have eq: "(\<lambda>(sf, tf). suggestPair thr sf tf) =
        (\<lambda>p. if (\<lambda>(sf, tf). thr \<le> fieldScore sf tf) p
             then [(\<lambda>(sf, tf). makeSuggestion sf tf (fieldScore sf tf)) p] else [])"
    by (auto simp: suggestPair_def Let_def fun_eq_iff)
  show "mset (suggestMappings src tgt thr) =
       mset (map (\<lambda>(sf, tf). makeSuggestion sf tf (fieldScore sf tf))
              (filter (\<lambda>(sf, tf). thr \<le> fieldScore sf tf)
                 (List.product (extractFields src []) (extractFields tgt []))))"
    unfolding suggestMappings_def Let_def mset_sort concat_nested_product eq
      concat_singletons_filter
    by (rule refl)
qed

theorem suggestMappings_threshold_sorted_witness:
  "makeSuggestion (''email'', stringSchema) (''email'', stringSchema) 1
      \<in> set (suggestMappings customerSchema userSchema (7 / 10))
   \<and> 7 / 10 \<le> confidence (makeSuggestion (''email'', stringSchema) (''email'', stringSchema) 1)
   \<and> confidence (makeSuggestion (''email'', stringSchema) (''email'', stringSchema) 1) \<le> 1
   \<and> sorted_wrt (\<lambda>a b. confidence b \<le> confidence a)
        (suggestMappings customerSchema userSchema (7 / 10))"
proof -
  let ?s = "makeSuggestion (''email'', stringSchema) (''email'', stringSchema) 1"
  have "fieldScore (''email'', stringSchema) (''email'', stringSchema) = 1"
    by (simp add: fieldScore_same)
  then have "suggestPair (7 / 10) (''email'', stringSchema) (''email'', stringSchema) = [?s]"
    by (simp add: suggestPair_def)
  then have m: "?s \<in> set (suggestMappings customerSchema userSchema (7 / 10))"
    unfolding set_suggestMappings
    using extractFields_customer_email extractFields_user_email by force
  from suggestMappings_threshold_sorted [of customerSchema userSchema "7 / 10"] m
  show ?thesis by blast
qed

section \<open>Numbers and strings\<close>

lemmas number_eval =
  parseFloat_def trimStart_def whiteSpaceCodes_def leadingLength_def scanDecimal_def
  scanUnsigned_def scanExponent_def decimalValue_def numberValue_def floorLog2_def
  roundHalfEven_def pow2_def negate_def bitLength.simps

text \<open>A positive number lies between the powers of two that its bit length names.\<close>

lemma bitLength_bounds: "0 < n \<Longrightarrow> 2 ^ (bitLength n - 1) \<le> n \<and> n < 2 ^ bitLength n"
proof (induction n rule: bitLength.induct)
  case (1 n)
  show ?case
  proof (cases "n div 2 = 0")
    case True
    with 1(2) have "n = 1" by (auto simp: div_eq_0_iff)
    then show ?thesis by (simp add: bitLength.simps)
  next
    case False
    then have pos: "0 < n div 2" by simp
    from 1(1) [OF _ pos] 1(2)
    have ih: "2 ^ (bitLength (n div 2) - 1) \<le> n div 2" "n div 2 < 2 ^ bitLength (n div 2)"
      by auto
    have bl: "bitLength n = Suc (bitLength (n div 2))"
      using 1(2) by (subst bitLength.simps) simp
    have blpos: "0 < bitLength (n div 2)"
      using pos by (subst bitLength.simps) simp
    then obtain k where k: "bitLength (n div 2) = Suc k" by (cases "bitLength (n div 2)") auto
    from ih k have "2 * 2 ^ k \<le> 2 * (n div 2)" by simp
    also have "\<dots> \<le> n" by simp
    finally have lo: "2 ^ (bitLength n - 1) \<le> n" by (simp add: bl k)
    from ih(2) have "n div 2 + 1 \<le> 2 ^ bitLength (n div 2)" by simp
    then have "2 * (n div 2) + 2 \<le> 2 * 2 ^ bitLength (n div 2)" by simp
    moreover have "n < 2 * (n div 2) + 2" by presburger
    ultimately have hi: "n < 2 ^ bitLength n" by (simp add: bl)
    from lo hi show ?thesis by simp
  qed
qed

text \<open>Rounding never yields \<open>NaN\<close>.\<close>

lemma numberValue_not_NaN: "numberValue a b \<noteq> NaN"
  by (simp add: numberValue_def Let_def)

lemma decimalValue_not_NaN: "decimalValue m e \<noteq> NaN"
  by (simp add: decimalValue_def numberValue_not_NaN)

text \<open>An integer of \<open>2^1024\<close> or more is \<open>Infinity\<close>.\<close>

lemma numberValue_overflow:
  assumes "2 ^ 1024 \<le> a"
  shows "numberValue a 1 = PosInf"
proof -
  from assms have pos: "0 < a" by (metis zero_less_numeral zero_less_power less_le_trans)
  then have nz: "a \<noteq> 0" by simp
  define k where "k = bitLength a - 1"
  from bitLength_bounds [OF pos] have lo: "2 ^ k \<le> a" and hi: "a < 2 ^ bitLength a"
    by (simp_all add: k_def)
  from assms hi have "(2::nat) ^ 1024 < 2 ^ bitLength a" by simp
  then have big: "1024 < bitLength a"
    by (simp only: power_strict_increasing_iff [of 2] one_less_numeral_iff semiring_norm)
  then have k: "1024 \<le> k" "bitLength a = Suc k" by (simp_all add: k_def)
  have b1: "bitLength (Suc 0) = Suc 0" by (simp add: bitLength.simps)
  have e: "floorLog2 a 1 = int k"
    using lo by (simp add: floorLog2_def b1 k Let_def)
  define u where "u = k - 52"
  have ku: "k = 52 + u" using k by (simp add: u_def)
  have umax: "max (int k - 52) (- 1074) = int u" using k by (simp add: u_def)
  have split: "(2::nat) ^ k = 2 ^ 52 * 2 ^ u" by (simp only: ku power_add)
  from lo have "2 ^ 52 * 2 ^ u \<le> a" by (simp only: split)
  then have "2 ^ 52 \<le> a div 2 ^ u"
    by (simp only: less_eq_div_iff_mult_less_eq zero_less_power zero_less_numeral)
  moreover have "a div 2 ^ u \<le> roundHalfEven a (2 ^ u)"
    by (simp add: roundHalfEven_def Let_def)
  ultimately have "2 ^ 52 \<le> roundHalfEven a (2 ^ u)" by (rule order_trans)
  then have "2 ^ 52 * 2 ^ u \<le> roundHalfEven a (2 ^ u) * 2 ^ u" by (rule mult_right_mono) simp
  then have "2 ^ k \<le> roundHalfEven a (2 ^ u) * 2 ^ u" by (simp only: split)
  moreover have "(2::nat) ^ 1024 \<le> 2 ^ k" by (rule power_increasing) (use k in simp_all)
  ultimately have over: "2 ^ 1024 \<le> roundHalfEven a (2 ^ u) * 2 ^ u"
    by (rule order_trans [rotated])
  have "numberValue a 1 = (if 2 ^ 1024 \<le> roundHalfEven a (2 ^ u) * 2 ^ u then PosInf
                            else Fin (of_nat (roundHalfEven a (2 ^ u)) * pow2 (int u)))"
    by (simp only: numberValue_def Let_def e umax nz if_False if_True of_nat_0_le_iff nat_int
        mult_1 simp_thms)
  with over show ?thesis by (simp only: if_True)
qed


text \<open>
  No white space character starts with a digit, so a text that starts with a digit is read
  from its first character.
\<close>

lemma whiteSpaceCodes_first:
  "code \<in> set whiteSpaceCodes \<Longrightarrow> code \<noteq> [] \<and> \<not> isDigit (hd code)"
  by (auto simp: whiteSpaceCodes_def isDigit_def)

lemma leadingLength_digit:
  assumes "isDigit d"
  shows "leadingLength whiteSpaceCodes (d # rest) = 0"
proof -
  have "\<not> prefix code (d # rest)" if "code \<in> set whiteSpaceCodes" for code
    using whiteSpaceCodes_first [OF that] assms by (cases code) auto
  then have "filter (\<lambda>code. prefix code (d # rest)) whiteSpaceCodes = []"
    by (simp add: filter_empty_conv)
  then show ?thesis by (simp add: leadingLength_def)
qed

lemma parseFloat_digit: "isDigit d \<Longrightarrow> parseFloat (d # rest) \<noteq> NaN"
  by (auto simp: parseFloat_def trimStart_def leadingLength_digit isDigit_def scanDecimal_def
      scanUnsigned_def decimalValue_not_NaN Let_def split: prod.splits)

text \<open>An integer below \<open>2^53\<close> is its own Number value.\<close>

lemma roundHalfEven_1: "roundHalfEven n 1 = n"
  by (simp add: roundHalfEven_def)

lemma floorLog2_1:
  assumes "0 < a"
  shows "floorLog2 a 1 = int (bitLength a - 1)"
proof -
  define k where "k = bitLength a - 1"
  from bitLength_bounds [OF assms] have lo: "2 ^ k \<le> a" by (simp add: k_def)
  have "0 < bitLength a" using assms by (subst bitLength.simps) simp
  then have k: "bitLength a = Suc k" by (simp add: k_def)
  have b1: "bitLength (Suc 0) = Suc 0" by (simp add: bitLength.simps)
  have "floorLog2 a 1 = int k"
    using lo by (simp add: floorLog2_def b1 k Let_def)
  then show ?thesis by (simp only: k_def)
qed

lemma numberValue_integer:
  assumes "m < 2 ^ 53"
  shows "numberValue m 1 = Fin (of_nat m)"
proof (cases "m = 0")
  case True
  then show ?thesis by (simp add: numberValue_def)
next
  case False
  then have pos: "0 < m" by simp
  define k where "k = bitLength m - 1"
  from bitLength_bounds [OF pos] have "2 ^ k \<le> m" by (simp add: k_def)
  from this assms have "(2::nat) ^ k < 2 ^ 53" by (rule le_less_trans)
  then have k: "k < 53"
    by (simp only: power_strict_increasing_iff [of 2] one_less_numeral_iff semiring_norm)
  have e: "floorLog2 m 1 = int k" using floorLog2_1 [OF pos] by (simp only: k_def)
  have e': "floorLog2 m (Suc 0) = int k" using e by simp
  have small: "\<not> (2::nat) ^ 1024 \<le> m" using assms by simp
  show ?thesis
  proof (cases "k = 52")
    case True
    then show ?thesis
      using \<open>m \<noteq> 0\<close> small
      by (simp add: numberValue_def e' Let_def roundHalfEven_def pow2_def)
  next
    case False
    with k have lt: "k < 52" by simp
    then have u: "max (int k - 52) (- 1074) = - int (52 - k)" by simp
    have n: "nat (52 - int k) = 52 - k" using lt by arith
    have "numberValue m 1 = Fin (of_nat (m * 2 ^ (52 - k)) * pow2 (- int (52 - k)))"
      using \<open>m \<noteq> 0\<close> lt
      by (simp only: numberValue_def Let_def e u roundHalfEven_1 if_False)
         (simp add: roundHalfEven_def n)
    also have "\<dots> = Fin (of_nat m)"
      using lt by (simp add: pow2_def n)
    finally show ?thesis .
  qed
qed

text \<open>A string of ASCII characters has one code unit for each of them.\<close>

lemma codeUnits_ascii:
  "list_all (\<lambda>c. (of_char c :: nat) < 128) s \<Longrightarrow> codeUnits s = map (\<lambda>c. [c]) s"
  by (induction s) (simp_all add: sequenceLength_def)

text \<open>
  Readings of \<open>parseFloat\<close>, \<open>trim\<close> and \<open>length\<close>: a value beyond the largest double is \<open>Infinity\<close>;
  \<open>2^53 + 1\<close> is half-way between two doubles and goes to the even one; a no-break space
  before the digits is skipped; \<open>-0\<close> is the negative zero; \<open>trim\<close> removes a byte order
  mark, a tab, a paragraph separator and a space; a character outside the basic plane counts
  as two code units.
\<close>

lemma parseFloat_overflow: "parseFloat ''1e400'' = PosInf"
proof -
  have "(2::nat) ^ 1024 \<le> 10 ^ 400" by simp
  then have "numberValue (10 ^ 400) 1 = PosInf" by (rule numberValue_overflow)
  then show ?thesis
    by (simp add: parseFloat_def trimStart_def whiteSpaceCodes_def leadingLength_def
        scanDecimal_def scanUnsigned_def scanExponent_def decimalValue_def isDigit_def
        digitVal_def)
qed

lemma parseFloat_rounds: "parseFloat ''9007199254740993'' = Fin 9007199254740992"
  by (simp add: number_eval isDigit_def digitVal_def)

lemma parseFloat_no_break_space: "parseFloat [CHR 0xC2, CHR 0xA0, CHR ''4'', CHR ''2''] = Fin 42"
  by (simp add: number_eval isDigit_def digitVal_def)

lemma parseFloat_negative_zero: "parseFloat ''-0'' = NegZero"
  by (simp add: number_eval isDigit_def digitVal_def)

lemma codeUnits_surrogates:
  "length (codeUnits [CHR 0xC3, CHR 0xA9, CHR 0xF0, CHR 0x9F, CHR 0x98, CHR 0x80]) = 3"
  by (simp add: sequenceLength_def surrogates_def)

lemma trim_white_space:
  "trim ([CHR 0xEF, CHR 0xBB, CHR 0xBF, CHR 0x09] @ ''a b''
          @ [CHR 0xE2, CHR 0x80, CHR 0xA9, CHR 0x20]) = ''a b''"
  by (simp add: trim_def trimStart_def trimEnd_def whiteSpaceCodes_def leadingLength_def)

section \<open>Payload transformation\<close>

lemmas transform_eval =
  transformPayload_def alloc_def emptyObject_def objectKeys_def cell_def ownKeys_def orderedKeys_def
  arrayIndex_def isDigit_def digitVal_def object_def direct_def transformField_def
  invalidMapping_def fieldOf_def getNestedValue_def split_def getProperty_def ownProperty_def
  writeTarget_def setNestedValue_def hasProperty_def setProperty_def applyTransformation_def
  applyFormatTransformation_def stringToNumberRule_def noParams_def String_def Let_def

subsection \<open>The loop over the correspondences\<close>










subsection \<open>The format rule from string to number\<close>

lemma split_total: "split ''total'' ''.'' = [''total'']"
  by (simp add: split_def)

lemma split_amount: "split ''amount'' ''.'' = [''amount'']"
  by (simp add: split_def)

lemma format_rule:
  "applyFormatTransformation b h v stringToNumberRule =
     (if parseFloat (String b h v) = NaN then Inl (CannotConvertNumber (String b h v))
      else Inr (Num (parseFloat (String b h v))))"
  by (simp add: applyFormatTransformation_def stringToNumberRule_def noParams_def Let_def)

lemma rule_type_stringToNumberRule: "rule_type stringToNumberRule = ''format''"
  by (simp add: stringToNumberRule_def)

lemma transformField_amount:
  assumes "a < length h" and "ownProperty (h ! a) ''amount'' = Some (Str s)"
  shows "transformField b (Ref a) (Ref (length h))
           ((direct ''amount'' ''total'')\<lparr>transformation := Some stringToNumberRule\<rparr>)
           (h @ [emptyObject]) =
         (if parseFloat s = NaN
          then (h @ [emptyObject],
                [\<lparr>field = ''amount'', error = TransformationFailed (CannotConvertNumber s),
                  originalValue = Str s\<rparr>])
          else (h @ [object [(''total'', Num (parseFloat s))]], []))"
  using assms
  by (simp add: transformField_def invalidMapping_def direct_def getNestedValue_def split_amount
      getProperty_def cell_def nth_append applyTransformation_def format_rule String_def
      rule_type_stringToNumberRule writeTarget_def setNestedValue_def split_total setProperty_def
      emptyObject_def object_def Let_def)

lemma transformPayload_amount:
  assumes "a < length h" and "ownProperty (h ! a) ''amount'' = Some (Str s)"
  shows "\<exists>r. transformPayload b h (Ref a) amountToTotal =
            Inr (r, if parseFloat s = NaN then h @ [emptyObject]
                    else h @ [object [(''total'', Num (parseFloat s))]])
          \<and> success r = (parseFloat s \<noteq> NaN)
          \<and> transformedPayload r = (if parseFloat s = NaN then None else Some (Ref (length h)))
          \<and> errors r =
              (if parseFloat s = NaN
               then Some [\<lparr>field = ''amount'',
                           error = TransformationFailed (CannotConvertNumber s),
                           originalValue = Str s\<rparr>]
               else None)"
  using assms
  by (simp add: transformPayload_def alloc_def objectKeys_def cell_def nth_append Let_def
      amountToTotal_def transformField_amount)

text \<open>
  C2, as stated: either the entire string is a number, or an error is recorded. The code
  reads the number with \<open>parseFloat\<close>, which stops at the first character that cannot
  continue a number: \<open>42abc\<close> is not a number as a whole, yet the rule returns 42 and the run
  succeeds with no error.
\<close>

theorem format_string_to_number_accepts_prefix:
  "\<not> entireStringIsNumber ''42abc''
   \<and> transformPayload exampleBuiltins [object [(''amount'', Str ''42abc'')]] (Ref 0) amountToTotal =
       Inr (\<lparr>success = True, transformedPayload = Some (Ref 1), errors = None, warnings = None,
             unmappedFields = None\<rparr>,
            [object [(''amount'', Str ''42abc'')], object [(''total'', Num (Fin 42))]])"
  by (simp add: entireStringIsNumber_def stringToNumber_def trim_def trimEnd_def
      scanNonDecimal_def amountToTotal_def transform_eval number_eval)

text \<open>
  C2, amended. The rule converts with \<open>parseFloat\<close>: white space at the start is skipped,
  the longest leading numeric text is read and what follows it is ignored; the number is the
  double nearest to the value of that text. For every input value the rule returns that
  number, or throws when there is no leading numeric text; a text that begins with a digit
  never throws. For a payload whose \<open>amount\<close> is a string and the correspondence \<open>amount\<close> to
  \<open>total\<close> with this rule, the run either succeeds with the output \<open>{total: number}\<close>, or
  fails with exactly one error, citing field \<open>amount\<close>, and no output. \<open>{"amount":"42.5"}\<close>
  gives \<open>{"total":42.5}\<close>, and \<open>{"amount":"abc"}\<close> gives \<open>success = false\<close> with one error for
  \<open>amount\<close>. A value too large for a double is not an error: \<open>{"amount":"1e400"}\<close> gives
  \<open>total = Infinity\<close>.
\<close>

theorem format_string_to_number_parseFloat:
  "applyFormatTransformation b h v stringToNumberRule =
     (if parseFloat (String b h v) = NaN then Inl (CannotConvertNumber (String b h v))
      else Inr (Num (parseFloat (String b h v))))
   \<and> (isDigit d \<longrightarrow> parseFloat (d # rest) \<noteq> NaN)
   \<and> (a < length h \<and> ownProperty (h ! a) ''amount'' = Some (Str s) \<longrightarrow>
        (\<exists>r. transformPayload b h (Ref a) amountToTotal =
            Inr (r, if parseFloat s = NaN then h @ [emptyObject]
                    else h @ [object [(''total'', Num (parseFloat s))]])
          \<and> success r = (parseFloat s \<noteq> NaN)
          \<and> transformedPayload r = (if parseFloat s = NaN then None else Some (Ref (length h)))
          \<and> errors r =
              (if parseFloat s = NaN
               then Some [\<lparr>field = ''amount'',
                           error = TransformationFailed (CannotConvertNumber s),
                           originalValue = Str s\<rparr>]
               else None)))
   \<and> transformPayload b [object [(''amount'', Str ''42.5'')]] (Ref 0) amountToTotal =
       Inr (\<lparr>success = True, transformedPayload = Some (Ref 1), errors = None, warnings = None,
             unmappedFields = None\<rparr>,
            [object [(''amount'', Str ''42.5'')], object [(''total'', Num (Fin 42.5))]])
   \<and> transformPayload b [object [(''amount'', Str ''abc'')]] (Ref 0) amountToTotal =
       Inr (\<lparr>success = False, transformedPayload = None,
             errors = Some [\<lparr>field = ''amount'',
                             error = TransformationFailed (CannotConvertNumber ''abc''),
                             originalValue = Str ''abc''\<rparr>],
             warnings = None, unmappedFields = None\<rparr>,
            [object [(''amount'', Str ''abc'')], object []])
   \<and> transformPayload b [object [(''amount'', Str ''1e400'')]] (Ref 0) amountToTotal =
       Inr (\<lparr>success = True, transformedPayload = Some (Ref 1), errors = None, warnings = None,
             unmappedFields = None\<rparr>,
            [object [(''amount'', Str ''1e400'')], object [(''total'', Num PosInf)]])"
proof (intro conjI impI)
  show "applyFormatTransformation b h v stringToNumberRule =
     (if parseFloat (String b h v) = NaN then Inl (CannotConvertNumber (String b h v))
      else Inr (Num (parseFloat (String b h v))))"
    by (rule format_rule)
next
  assume "isDigit d"
  then show "parseFloat (d # rest) \<noteq> NaN" by (rule parseFloat_digit)
next
  assume "a < length h \<and> ownProperty (h ! a) ''amount'' = Some (Str s)"
  then show "\<exists>r. transformPayload b h (Ref a) amountToTotal =
            Inr (r, if parseFloat s = NaN then h @ [emptyObject]
                    else h @ [object [(''total'', Num (parseFloat s))]])
          \<and> success r = (parseFloat s \<noteq> NaN)
          \<and> transformedPayload r = (if parseFloat s = NaN then None else Some (Ref (length h)))
          \<and> errors r =
              (if parseFloat s = NaN
               then Some [\<lparr>field = ''amount'',
                           error = TransformationFailed (CannotConvertNumber s),
                           originalValue = Str s\<rparr>]
               else None)"
    by (simp add: transformPayload_amount)
next
  show "transformPayload b [object [(''amount'', Str ''42.5'')]] (Ref 0) amountToTotal =
       Inr (\<lparr>success = True, transformedPayload = Some (Ref 1), errors = None, warnings = None,
             unmappedFields = None\<rparr>,
            [object [(''amount'', Str ''42.5'')], object [(''total'', Num (Fin 42.5))]])"
    by (simp add: amountToTotal_def transform_eval number_eval)
next
  show "transformPayload b [object [(''amount'', Str ''abc'')]] (Ref 0) amountToTotal =
       Inr (\<lparr>success = False, transformedPayload = None,
             errors = Some [\<lparr>field = ''amount'',
                             error = TransformationFailed (CannotConvertNumber ''abc''),
                             originalValue = Str ''abc''\<rparr>],
             warnings = None, unmappedFields = None\<rparr>,
            [object [(''amount'', Str ''abc'')], object []])"
    by (simp add: amountToTotal_def transform_eval number_eval)
next
  show "transformPayload b [object [(''amount'', Str ''1e400'')]] (Ref 0) amountToTotal =
       Inr (\<lparr>success = True, transformedPayload = Some (Ref 1), errors = None, warnings = None,
             unmappedFields = None\<rparr>,
            [object [(''amount'', Str ''1e400'')], object [(''total'', Num PosInf)]])"
    by (simp add: amountToTotal_def transform_eval parseFloat_overflow)
qed

text \<open>The amended statement at the payload \<open>{"amount": " 7.25 EUR"}\<close>: the run yields 7.25.\<close>

theorem format_string_to_number_parseFloat_witness:
  "isDigit (CHR ''7'') \<and> parseFloat ''7.25 EUR'' \<noteq> NaN
   \<and> (0 :: nat) < length [object [(''amount'', Str '' 7.25 EUR'')]]
   \<and> ownProperty ([object [(''amount'', Str '' 7.25 EUR'')]] ! 0) ''amount''
       = Some (Str '' 7.25 EUR'')
   \<and> (\<exists>r. transformPayload exampleBuiltins [object [(''amount'', Str '' 7.25 EUR'')]] (Ref 0)
              amountToTotal =
            Inr (r, [object [(''amount'', Str '' 7.25 EUR'')],
                     object [(''total'', Num (Fin 7.25))]])
          \<and> success r \<and> transformedPayload r = Some (Ref 1) \<and> errors r = None)"
proof -
  have pf: "parseFloat '' 7.25 EUR'' = Fin 7.25"
    by (simp add: number_eval isDigit_def digitVal_def)
  have d: "isDigit (CHR ''7'')"
    by (simp add: isDigit_def)
  have own: "ownProperty ([object [(''amount'', Str '' 7.25 EUR'')]] ! 0) ''amount''
       = Some (Str '' 7.25 EUR'')"
    by (simp add: ownProperty_def object_def)
  from format_string_to_number_parseFloat
    [where d = "CHR ''7''" and rest = "''.25 EUR''" and a = 0
       and h = "[object [(''amount'', Str '' 7.25 EUR'')]]" and s = "'' 7.25 EUR''"
       and b = exampleBuiltins]
    pf d own
  show ?thesis by simp
qed

subsection \<open>The source payload\<close>

text \<open>
  C9. The output object is new, but the values written into it are the source's own objects,
  not copies. When the correspondence \<open>user\<close> to \<open>profile\<close> is followed by \<open>age\<close> to
  \<open>profile.age\<close>, the second write goes through \<open>profile\<close> into the object the payload holds
  under \<open>user\<close>: after the run, which succeeds, the payload's \<open>user\<close> has the new key \<open>age\<close>.
\<close>

theorem transformPayload_writes_into_source:
  "getNestedValue profileHeap (Ref 0) ''user.age'' = Inr Undefined
   \<and> transformPayload exampleBuiltins profileHeap (Ref 0) profileMapping =
       Inr (\<lparr>success = True, transformedPayload = Some (Ref 2), errors = None, warnings = None,
             unmappedFields = None\<rparr>,
            [object [(''user'', Ref 1), (''age'', Num (Fin 3))],
             object [(''name'', Str ''Jane''), (''age'', Num (Fin 3))],
             object [(''profile'', Ref 1)]])
   \<and> getNestedValue
        [object [(''user'', Ref 1), (''age'', Num (Fin 3))],
         object [(''name'', Str ''Jane''), (''age'', Num (Fin 3))],
         object [(''profile'', Ref 1)]] (Ref 0) ''user.age'' = Inr (Num (Fin 3))"
  by (simp add: profileHeap_def profileMapping_def transform_eval)

section \<open>The mapping store\<close>

lemma map_of_updateProp:
  "map_of (updateProp k v ps) k' = (if k' = k then Some v else map_of ps k')"
  by (induction ps) auto

lemma set_updateProp: "e \<in> set (updateProp k v ps) \<Longrightarrow> e = (k, v) \<or> e \<in> set ps"
  by (induction ps) (auto split: if_splits)

lemma jget_updateProp:
  "jget (JObj (updateProp k v ps)) k' = (if k' = k then v else jget (JObj ps) k')"
  by (simp add: jget_def map_of_updateProp)

lemma normalizeAll_ok:
  "\<forall>fm \<in> set fms. \<not> jnullish fm \<Longrightarrow> \<exists>ns. normalizeAll fms = Inr ns"
proof (induction fms)
  case Nil
  then show ?case by simp
next
  case (Cons fm fms)
  then obtain ns where ns: "normalizeAll fms = Inr ns"
    by auto
  from Cons.prems obtain n where n: "normalizeFieldMapping fm = Inr n"
    by (auto simp: normalizeFieldMapping_def)
  have "normalizeAll (fm # fms) = Inr (n # ns)"
    by (simp add: n ns)
  then show ?case by blast
qed

lemma normalizeAll_Inr:
  "normalizeAll fms = Inr ns \<Longrightarrow>
     length ns = length fms \<and> (\<forall>i < length fms. normalizeFieldMapping (fms ! i) = Inr (ns ! i))"
proof (induction fms arbitrary: ns)
  case Nil
  then show ?case by simp
next
  case (Cons fm fms)
  from Cons.prems obtain n ns' where n: "normalizeFieldMapping fm = Inr n"
    and ns': "normalizeAll fms = Inr ns'" and eq: "ns = n # ns'"
    by (auto split: sum.splits)
  from Cons.IH [OF ns'] n eq show ?case
    by (auto simp: nth_Cons split: nat.splits)
qed

lemma normalizeFieldMapping_fields:
  assumes "normalizeFieldMapping fm = Inr n"
  shows "jget n ''sourceField'' = coalesce (jget fm ''sourceField'') (jget fm ''source_field'')"
    and "jget n ''targetField'' = coalesce (jget fm ''targetField'') (jget fm ''target_field'')"
    and "jget n ''transformation'' = coalesce (jget fm ''transformation'') JNull"
    and "jget n ''confidence'' = coalesce (jget fm ''confidence'') JNull"
    and "jget n ''required'' = coalesce (jget fm ''required'') (JBool False)"
    and "jget n ''sourceType'' =
           coalesce (jget fm ''sourceType'') (coalesce (jget fm ''source_type'') JUndefined)"
    and "jget n ''targetType'' =
           coalesce (jget fm ''targetType'') (coalesce (jget fm ''target_type'') JUndefined)"
    and "canonicalEntry n"
    and "k \<notin> set canonicalKeys \<Longrightarrow> jget n k = JUndefined"
  using assms
  by (auto simp: normalizeFieldMapping_def jget_def canonicalEntry_def canonicalKeys_def
      split: if_splits)

lemma initialized_initialize: "initialized (initialize s)"
  by (simp add: initialize_def split: mappingsFileState.splits)

lemma initialize_initialized: "initialized s \<Longrightarrow> initialize s = s"
  by (simp add: initialize_def)

lemma saveMappings_storage: "storage (saveMappings w s ms) = ms"
  by (simp add: saveMappings_def Let_def split: writeOutcome.splits)

lemma saveMappings_initialized: "initialized (saveMappings w s ms) = initialized s"
  by (simp add: saveMappings_def Let_def split: writeOutcome.splits)

lemma getMapping_after_saveMappings:
  "initialized s \<Longrightarrow> getMapping (saveMappings w s ms) ident =
     (saveMappings w s ms,
      case map_of ms ident of Some m \<Rightarrow> if jtruthy m then Some m else None | None \<Rightarrow> None)"
  by (simp add: getMapping_def loadMappings_def initialize_initialized saveMappings_initialized
      saveMappings_storage)

lemma stampedMapping_ok:
  assumes "\<forall>fm \<in> set (correspondences (JObj mapping)). \<not> jnullish fm"
  shows "\<exists>m3. stampedMapping now mapping = Inr m3"
proof (cases "jget (JObj mapping) ''fieldMappings''")
  case (JArr fms)
  then have "\<forall>fm \<in> set fms. \<not> jnullish fm"
    using assms by (simp add: correspondences_def)
  then obtain ns where "normalizeAll fms = Inr ns"
    using normalizeAll_ok by blast
  then show ?thesis
    using JArr by (simp add: stampedMapping_def Let_def)
qed (simp_all add: stampedMapping_def Let_def)

lemma stampedMapping_props:
  assumes "stampedMapping now mapping = Inr m3"
  shows "jget (JObj m3) ''updatedAt'' = JStr now"
    and "k \<noteq> ''fieldMappings'' \<Longrightarrow> k \<noteq> ''updatedAt'' \<Longrightarrow> k \<noteq> ''createdAt''
          \<Longrightarrow> jget (JObj m3) k = jget (JObj mapping) k"
    and "jget (JObj mapping) ''fieldMappings'' = JArr fms
          \<Longrightarrow> \<exists>ns. jget (JObj m3) ''fieldMappings'' = JArr ns \<and> normalizeAll fms = Inr ns"
    and "\<not> isArrayJson (jget (JObj mapping) ''fieldMappings'')
          \<Longrightarrow> jget (JObj m3) ''fieldMappings'' = jget (JObj mapping) ''fieldMappings''"
  using assms
  by (auto simp: stampedMapping_def Let_def jget_updateProp isArrayJson_def
      split: json.splits sum.splits if_splits)

lemma saveMapping_stores:
  assumes "stampedMapping now mapping = Inr m3" and "jget (JObj mapping) ''id'' = JStr ident"
  shows "saveMapping b now w s mapping =
           (saveMappings w (initialize s) (updateProp ident (JObj m3) (storage (initialize s))),
            Inr ())"
    and "getMapping
           (saveMappings w (initialize s) (updateProp ident (JObj m3) (storage (initialize s))))
           ident =
         (saveMappings w (initialize s) (updateProp ident (JObj m3) (storage (initialize s))),
          Some (JObj m3))"
proof -
  have "jget (JObj m3) ''id'' = JStr ident"
    using stampedMapping_props(2) [OF assms(1), of "''id''"] assms(2) by simp
  then show "saveMapping b now w s mapping =
           (saveMappings w (initialize s) (updateProp ident (JObj m3) (storage (initialize s))),
            Inr ())"
    by (simp add: saveMapping_def loadMappings_def assms(1))
  show "getMapping
           (saveMappings w (initialize s) (updateProp ident (JObj m3) (storage (initialize s))))
           ident =
         (saveMappings w (initialize s) (updateProp ident (JObj m3) (storage (initialize s))),
          Some (JObj m3))"
    by (simp add: getMapping_after_saveMappings initialized_initialize map_of_updateProp
        jtruthy_def)
qed

lemma validateEntries_True:
  "validateEntries fms = Inr True \<Longrightarrow>
     \<forall>fm \<in> set fms. \<not> jnullish fm
        \<and> jtruthy (coalesce (jget fm ''sourceField'') (jget fm ''source_field''))
        \<and> jtruthy (coalesce (jget fm ''targetField'') (jget fm ''target_field''))"
  by (induction fms) (auto split: if_splits)


lemma normalizeAll_entries:
  assumes "normalizeAll fms = Inr ns" and "validateEntries fms = Inr True"
  shows "list_all (\<lambda>fm. jtruthy (jget fm ''sourceField'') \<and> jtruthy (jget fm ''targetField'')) ns"
    and "list_all canonicalEntry ns"
proof -
  note n = normalizeAll_Inr [OF assms(1)]
  note v = validateEntries_True [OF assms(2)]
  show "list_all (\<lambda>fm. jtruthy (jget fm ''sourceField'') \<and> jtruthy (jget fm ''targetField'')) ns"
    unfolding list_all_length
  proof (intro allI impI)
    fix i assume "i < length ns"
    then have i: "i < length fms" using n by simp
    then have "normalizeFieldMapping (fms ! i) = Inr (ns ! i)" using n by simp
    from normalizeFieldMapping_fields(1,2) [OF this] v i
    show "jtruthy (jget (ns ! i) ''sourceField'') \<and> jtruthy (jget (ns ! i) ''targetField'')"
      by simp
  qed
  show "list_all canonicalEntry ns"
    unfolding list_all_length
  proof (intro allI impI)
    fix i assume "i < length ns"
    then have "normalizeFieldMapping (fms ! i) = Inr (ns ! i)" using n by simp
    then show "canonicalEntry (ns ! i)" by (rule normalizeFieldMapping_fields(8))
  qed
qed


lemma validated_accepted:
  assumes "validateMappingStructure (JObj ps) = Inr True"
    and "jget (JObj ps) ''fieldMappings'' = JArr fms"
    and "normalizeAll fms = Inr ns"
  shows "acceptedStructure (JObj (updateProp ''fieldMappings'' (JArr ns) ps))"
    and "list_all canonicalEntry
           (correspondences (JObj (updateProp ''fieldMappings'' (JArr ns) ps)))"
proof -
  from assms(1,2) have v: "validateEntries fms = Inr True"
    and basics: "isString (jget (JObj ps) ''id'')" "isString (jget (JObj ps) ''name'')"
      "jtruthy (jget (JObj ps) ''sourceEndpoint'')" "jtruthy (jget (JObj ps) ''targetEndpoint'')"
    by (auto simp: validateMappingStructure_def split: if_splits)
  note e = normalizeAll_entries [OF assms(3) v]
  show "acceptedStructure (JObj (updateProp ''fieldMappings'' (JArr ns) ps))"
    using basics e(1)
    by (simp add: acceptedStructure_def jget_updateProp correspondences_def isArrayJson_def)
  show "list_all canonicalEntry
           (correspondences (JObj (updateProp ''fieldMappings'' (JArr ns) ps)))"
    using e(2) by (simp add: correspondences_def jget_updateProp)
qed

lemma importEntry_rejects:
  "validateMappingStructure mapping \<noteq> Inr True \<Longrightarrow>
     \<exists>err. importEntry (ident, mapping) (ms, r) =
       (ms, r\<lparr>importErrors := importErrors r @ [err]\<rparr>)"
  by (cases "validateMappingStructure mapping")
     (auto simp: importEntry_def split: bool.splits)

lemma importEntry_cases:
  assumes "importEntry (ident, mapping) (ms, r) = (ms', r')"
  shows "(ms' = ms \<and> imported r' = imported r
            \<and> length (importErrors r') = Suc (length (importErrors r)))
       \<or> (\<exists>c. ms' = updateProp ident c ms \<and> acceptedStructure c
               \<and> list_all canonicalEntry (correspondences c)
               \<and> imported r' = Suc (imported r) \<and> importErrors r' = importErrors r)"
proof (cases "validateMappingStructure mapping = Inr True")
  case False
  then obtain err where "importEntry (ident, mapping) (ms, r) =
       (ms, r\<lparr>importErrors := importErrors r @ [err]\<rparr>)"
    using importEntry_rejects by blast
  then show ?thesis using assms by auto
next
  case True
  show ?thesis
  proof (cases mapping)
    case (JObj ps)
    from True JObj obtain fms where fms: "jget (JObj ps) ''fieldMappings'' = JArr fms"
      by (auto simp: validateMappingStructure_def isArrayJson_def split: if_splits json.splits)
    show ?thesis
    proof (cases "normalizeAll fms")
      case (Inl e)
      then show ?thesis
        using assms True JObj fms by (auto simp: importEntry_def)
    next
      case (Inr ns)
      have "ms' = updateProp ident (JObj (updateProp ''fieldMappings'' (JArr ns) ps)) ms"
        and "imported r' = Suc (imported r)" and "importErrors r' = importErrors r"
        using assms True JObj fms Inr by (auto simp: importEntry_def)
      then show ?thesis
        using validated_accepted [OF True [unfolded JObj] fms Inr] by blast
    qed
  qed (use assms True in \<open>auto simp: importEntry_def split: json.splits\<close>)
qed

lemma import_loop:
  "foldl (\<lambda>acc entry. importEntry entry acc) (ms, r) es = (ms', r') \<Longrightarrow>
     (\<forall>e \<in> set ms'. e \<in> set ms
        \<or> (acceptedStructure (snd e) \<and> list_all canonicalEntry (correspondences (snd e))))
     \<and> imported r' + length (importErrors r') = imported r + length (importErrors r) + length es"
proof (induction es arbitrary: ms r)
  case Nil
  then show ?case by simp
next
  case (Cons entry es)
  obtain ident mapping where entry: "entry = (ident, mapping)" by (cases entry)
  obtain ms1 r1 where step: "importEntry (ident, mapping) (ms, r) = (ms1, r1)"
    by (cases "importEntry (ident, mapping) (ms, r)")
  from Cons.prems have rest: "foldl (\<lambda>acc entry. importEntry entry acc) (ms1, r1) es = (ms', r')"
    by (simp add: entry step)
  note ih = Cons.IH [OF rest]
  from importEntry_cases [OF step]
  have one: "(\<forall>e \<in> set ms1. e \<in> set ms
        \<or> (acceptedStructure (snd e) \<and> list_all canonicalEntry (correspondences (snd e))))
      \<and> imported r1 + length (importErrors r1) = Suc (imported r + length (importErrors r))"
    by (auto dest: set_updateProp)
  show ?case
    using ih one by auto
qed

lemmas storage_eval =
  saveMapping_def loadMappings_def initialize_def stampedMapping_def normalizeFieldMapping_def
  jget_def coalesce_def jnullish_def jtruthy_def saveMappings_def getMapping_def
  importMappings_def importEntry_def validateMappingStructure_def jsonEntries_def
  orderedKeys_def arrayIndex_def isDigit_def digitVal_def isString_def isArrayJson_def
  correspondences_def Let_def

lemma length_filter_index:
  "length (filter (\<lambda>k. arrayIndex k \<noteq> None) ks) + length (filter (\<lambda>k. arrayIndex k = None) ks)
     = length ks"
  by (induction ks) auto

lemma length_orderedKeys: "length (orderedKeys ks) = length ks"
  using length_filter_index [of ks] by (simp add: orderedKeys_def)

lemma importMappings_store:
  assumes "importMappings w s parsed = (s', res)"
  shows "\<forall>e \<in> set (storage s'). e \<in> set (storage s) \<or> e \<in> set (storage (initialize s))
           \<or> (acceptedStructure (snd e) \<and> list_all canonicalEntry (correspondences (snd e)))"
proof (cases parsed)
  case (Inl message)
  then show ?thesis using assms by (simp add: importMappings_def)
next
  case (Inr d)
  show ?thesis
  proof (cases "case d of JObj ps \<Rightarrow> True | JArr xs \<Rightarrow> True | _ \<Rightarrow> False")
    case False
    then show ?thesis
      using assms Inr by (auto simp: importMappings_def)
  next
    case True
    obtain ms' r' where loop:
      "foldl (\<lambda>acc entry. importEntry entry acc)
         (storage (initialize s), \<lparr>imported = 0, importErrors = []\<rparr>) (jsonEntries d) = (ms', r')"
      by (cases "foldl (\<lambda>acc entry. importEntry entry acc)
         (storage (initialize s), \<lparr>imported = 0, importErrors = []\<rparr>) (jsonEntries d)")
    from True assms Inr loop have "storage s' = ms'"
      by (auto simp: importMappings_def loadMappings_def saveMappings_storage)
    then show ?thesis
      using import_loop [OF loop] by auto
  qed
qed

lemma importMappings_count:
  assumes "importMappings w s (Inr (JObj ps)) = (s', res)"
  shows "imported res + length (importErrors res) = length ps"
proof -
  obtain ms' r' where loop:
      "foldl (\<lambda>acc entry. importEntry entry acc)
         (storage (initialize s), \<lparr>imported = 0, importErrors = []\<rparr>) (jsonEntries (JObj ps))
       = (ms', r')"
    by (cases "foldl (\<lambda>acc entry. importEntry entry acc)
         (storage (initialize s), \<lparr>imported = 0, importErrors = []\<rparr>) (jsonEntries (JObj ps))")
  from assms loop have "res = r'"
    by (auto simp: importMappings_def loadMappings_def)
  then show ?thesis
    using import_loop [OF loop] by (simp add: jsonEntries_def length_orderedKeys)
qed


text \<open>
  C7. Saving a configuration whose \<open>fieldMappings\<close> is an array of objects and whose \<open>id\<close>
  is a string returns normally, and \<open>getMapping\<close> of that id then returns a configuration
  whose correspondences are, entry by entry, the canonical forms of the ones given: the
  camel-case key holds the camel-case value or else the snake-case one, \<open>required\<close> is
  \<open>false\<close> when absent, and \<open>transformation\<close> and \<open>confidence\<close> are \<open>null\<close> when absent.
\<close>

theorem saveMapping_canonicalizes:
  assumes "jget (JObj mapping) ''fieldMappings'' = JArr fms"
    and "\<forall>fm \<in> set fms. \<not> jnullish fm"
    and "jget (JObj mapping) ''id'' = JStr ident"
  shows "\<exists>s' cfg ns. saveMapping b now w s mapping = (s', Inr ())
     \<and> getMapping s' ident = (s', Some cfg)
     \<and> jget cfg ''fieldMappings'' = JArr ns \<and> length ns = length fms
     \<and> (\<forall>i < length fms.
          jget (ns ! i) ''sourceField'' =
            coalesce (jget (fms ! i) ''sourceField'') (jget (fms ! i) ''source_field'')
        \<and> jget (ns ! i) ''targetField'' =
            coalesce (jget (fms ! i) ''targetField'') (jget (fms ! i) ''target_field'')
        \<and> jget (ns ! i) ''sourceType'' =
            coalesce (jget (fms ! i) ''sourceType'') (coalesce (jget (fms ! i) ''source_type'') JUndefined)
        \<and> jget (ns ! i) ''targetType'' =
            coalesce (jget (fms ! i) ''targetType'') (coalesce (jget (fms ! i) ''target_type'') JUndefined)
        \<and> jget (ns ! i) ''required'' = coalesce (jget (fms ! i) ''required'') (JBool False)
        \<and> jget (ns ! i) ''transformation'' = coalesce (jget (fms ! i) ''transformation'') JNull
        \<and> jget (ns ! i) ''confidence'' = coalesce (jget (fms ! i) ''confidence'') JNull)"
proof -
  have "\<forall>fm \<in> set (correspondences (JObj mapping)). \<not> jnullish fm"
    using assms(1,2) by (simp add: correspondences_def)
  then obtain m3 where m3: "stampedMapping now mapping = Inr m3"
    using stampedMapping_ok by blast
  obtain ns where ns: "jget (JObj m3) ''fieldMappings'' = JArr ns" "normalizeAll fms = Inr ns"
    using stampedMapping_props(3) [OF m3 assms(1)] by blast
  note n = normalizeAll_Inr [OF ns(2)]
  let ?s' = "saveMappings w (initialize s) (updateProp ident (JObj m3) (storage (initialize s)))"
  have "saveMapping b now w s mapping = (?s', Inr ())"
    and "getMapping ?s' ident = (?s', Some (JObj m3))"
    using saveMapping_stores [OF m3 assms(3)] by simp_all
  moreover have "\<forall>i < length fms.
          jget (ns ! i) ''sourceField'' =
            coalesce (jget (fms ! i) ''sourceField'') (jget (fms ! i) ''source_field'')
        \<and> jget (ns ! i) ''targetField'' =
            coalesce (jget (fms ! i) ''targetField'') (jget (fms ! i) ''target_field'')
        \<and> jget (ns ! i) ''sourceType'' =
            coalesce (jget (fms ! i) ''sourceType'') (coalesce (jget (fms ! i) ''source_type'') JUndefined)
        \<and> jget (ns ! i) ''targetType'' =
            coalesce (jget (fms ! i) ''targetType'') (coalesce (jget (fms ! i) ''target_type'') JUndefined)
        \<and> jget (ns ! i) ''required'' = coalesce (jget (fms ! i) ''required'') (JBool False)
        \<and> jget (ns ! i) ''transformation'' = coalesce (jget (fms ! i) ''transformation'') JNull
        \<and> jget (ns ! i) ''confidence'' = coalesce (jget (fms ! i) ''confidence'') JNull"
    using n normalizeFieldMapping_fields(1-7) by blast
  ultimately show ?thesis
    using ns(1) n by blast
qed

text \<open>
  Scenario E: one correspondence keyed \<open>source_field\<close>/\<open>target_field\<close> and one keyed
  \<open>sourceField\<close>/\<open>targetField\<close> are both read through the camel-case keys after the save.
\<close>

theorem saveMapping_canonicalizes_witness:
  "jget (JObj customerSync) ''id'' = JStr ''customer-sync''
   \<and> (\<exists>s' cfg ns.
        saveMapping exampleBuiltins timeStamp WriteOk freshStore customerSync = (s', Inr ())
      \<and> getMapping s' ''customer-sync'' = (s', Some cfg)
      \<and> jget cfg ''fieldMappings'' = JArr ns \<and> length ns = 2
      \<and> jget (ns ! 0) ''sourceField'' = JStr ''FirstName''
      \<and> jget (ns ! 0) ''targetField'' = JStr ''first_name''
      \<and> jget (ns ! 0) ''required'' = JBool False
      \<and> jget (ns ! 0) ''transformation'' = JNull
      \<and> jget (ns ! 0) ''confidence'' = JNull
      \<and> jget (ns ! 1) ''sourceField'' = JStr ''Email''
      \<and> jget (ns ! 1) ''targetField'' = JStr ''email''
      \<and> jget (ns ! 1) ''required'' = JBool False
      \<and> jget (ns ! 1) ''transformation'' = JNull
      \<and> jget (ns ! 1) ''confidence'' = JNull)"
proof -
  let ?fms = "[JObj [(''source_field'', JStr ''FirstName''), (''target_field'', JStr ''first_name'')],
               JObj [(''sourceField'', JStr ''Email''), (''targetField'', JStr ''email''),
                     (''description'', JStr ''contact address'')]]"
  have h1: "jget (JObj customerSync) ''fieldMappings'' = JArr ?fms"
    by (simp add: customerSync_def jget_def)
  have h2: "\<forall>fm \<in> set ?fms. \<not> jnullish fm"
    by (simp add: jnullish_def)
  have h3: "jget (JObj customerSync) ''id'' = JStr ''customer-sync''"
    by (simp add: customerSync_def jget_def)
  from saveMapping_canonicalizes [OF h1 h2 h3, of exampleBuiltins timeStamp WriteOk freshStore]
  obtain s' cfg ns where *:
    "saveMapping exampleBuiltins timeStamp WriteOk freshStore customerSync = (s', Inr ())"
    "getMapping s' ''customer-sync'' = (s', Some cfg)"
    "jget cfg ''fieldMappings'' = JArr ns" "length ns = length ?fms"
    "\<forall>i < length ?fms.
          jget (ns ! i) ''sourceField'' =
            coalesce (jget (?fms ! i) ''sourceField'') (jget (?fms ! i) ''source_field'')
        \<and> jget (ns ! i) ''targetField'' =
            coalesce (jget (?fms ! i) ''targetField'') (jget (?fms ! i) ''target_field'')
        \<and> jget (ns ! i) ''sourceType'' =
            coalesce (jget (?fms ! i) ''sourceType'') (coalesce (jget (?fms ! i) ''source_type'') JUndefined)
        \<and> jget (ns ! i) ''targetType'' =
            coalesce (jget (?fms ! i) ''targetType'') (coalesce (jget (?fms ! i) ''target_type'') JUndefined)
        \<and> jget (ns ! i) ''required'' = coalesce (jget (?fms ! i) ''required'') (JBool False)
        \<and> jget (ns ! i) ''transformation'' = coalesce (jget (?fms ! i) ''transformation'') JNull
        \<and> jget (ns ! i) ''confidence'' = coalesce (jget (?fms ! i) ''confidence'') JNull"
    by blast
  from *(5) have e0: "jget (ns ! 0) ''sourceField'' = JStr ''FirstName''
      \<and> jget (ns ! 0) ''targetField'' = JStr ''first_name''
      \<and> jget (ns ! 0) ''required'' = JBool False
      \<and> jget (ns ! 0) ''transformation'' = JNull
      \<and> jget (ns ! 0) ''confidence'' = JNull"
    by (simp add: jget_def coalesce_def jnullish_def)
  from *(5) have e1: "jget (ns ! 1) ''sourceField'' = JStr ''Email''
      \<and> jget (ns ! 1) ''targetField'' = JStr ''email''
      \<and> jget (ns ! 1) ''required'' = JBool False
      \<and> jget (ns ! 1) ''transformation'' = JNull
      \<and> jget (ns ! 1) ''confidence'' = JNull"
    by (simp add: jget_def coalesce_def jnullish_def)
  from *(1-4) e0 e1 h3 show ?thesis by auto
qed

text \<open>
  C8. When the write to the mappings file throws, whatever the message, \<open>saveMapping\<close> still
  returns normally, and \<open>getMapping\<close> of the configuration's id in the state it leaves
  returns the configuration just saved, from memory. The file is as it was, and when the write
  was attempted the failure shows as one warning on the console.
\<close>

theorem saveMapping_survives_write_failure:
  assumes "\<forall>fm \<in> set (correspondences (JObj mapping)). \<not> jnullish fm"
    and "jget (JObj mapping) ''id'' = JStr ident"
  shows "\<exists>s' m3. saveMapping b now (WriteFails msg) s mapping = (s', Inr ())
     \<and> stampedMapping now mapping = Inr m3
     \<and> getMapping s' ident = (s', Some (JObj m3))
     \<and> jget (JObj m3) ''id'' = JStr ident
     \<and> mappingsFile s' = mappingsFile s
     \<and> (fileSystemWritable s \<longrightarrow> (\<exists>text. console s' = console (initialize s) @ [WarnLine text]))"
proof -
  obtain m3 where m3: "stampedMapping now mapping = Inr m3"
    using stampedMapping_ok [OF assms(1)] by blast
  let ?s' = "saveMappings (WriteFails msg) (initialize s)
               (updateProp ident (JObj m3) (storage (initialize s)))"
  have "saveMapping b now (WriteFails msg) s mapping = (?s', Inr ())"
    and "getMapping ?s' ident = (?s', Some (JObj m3))"
    using saveMapping_stores [OF m3 assms(2)] by simp_all
  moreover have "jget (JObj m3) ''id'' = JStr ident"
    using stampedMapping_props(2) [OF m3, of "''id''"] assms(2) by simp
  moreover have "mappingsFile ?s' = mappingsFile s"
    by (simp add: saveMappings_def initialize_def Let_def split: mappingsFileState.splits)
  moreover have "fileSystemWritable s \<longrightarrow>
      (\<exists>text. console ?s' = console (initialize s) @ [WarnLine text])"
    by (simp add: saveMappings_def initialize_def Let_def split: mappingsFileState.splits)
  ultimately show ?thesis using m3 by blast
qed


text \<open>Scenario F: the first save into a store whose file system is read-only.\<close>

theorem saveMapping_survives_write_failure_witness:
  "jget (JObj customerSync) ''id'' = JStr ''customer-sync''
   \<and> fileSystemWritable freshStore
   \<and> (\<exists>s' m3 text.
        saveMapping exampleBuiltins timeStamp (WriteFails ''EROFS: read-only file system'')
          freshStore customerSync = (s', Inr ())
      \<and> getMapping s' ''customer-sync'' = (s', Some (JObj m3))
      \<and> jget (JObj m3) ''id'' = JStr ''customer-sync''
      \<and> mappingsFile s' = Missing
      \<and> console s' = console (initialize freshStore) @ [WarnLine text])"
proof -
  have h1: "\<forall>fm \<in> set (correspondences (JObj customerSync)). \<not> jnullish fm"
    by (simp add: correspondences_def customerSync_def jget_def jnullish_def)
  have h2: "jget (JObj customerSync) ''id'' = JStr ''customer-sync''"
    by (simp add: customerSync_def jget_def)
  have h3: "fileSystemWritable freshStore" and h4: "mappingsFile freshStore = Missing"
    by (simp_all add: freshStore_def)
  from saveMapping_survives_write_failure
    [OF h1 h2, of exampleBuiltins timeStamp "''EROFS: read-only file system''" freshStore]
    h2 h3 h4
  show ?thesis by auto
qed

text \<open>
  C4, as stated: every configuration that enters the store, through save or through import,
  is structurally valid. \<open>saveMapping\<close> performs no structural check: a configuration with an
  empty name and a correspondence without a target path is stored, and \<open>getMapping\<close> returns
  it. The check of \<open>importMappings\<close> asks \<open>id\<close> and \<open>name\<close> to be strings, not to be
  non-empty: an entry with an empty \<open>id\<close> and an empty \<open>name\<close> is imported.
\<close>

theorem store_accepts_invalid_configurations:
  "snd (saveMapping exampleBuiltins timeStamp WriteOk freshStore draftMapping) = Inr ()
   \<and> snd (getMapping (fst (saveMapping exampleBuiltins timeStamp WriteOk freshStore draftMapping))
           ''draft'')
       = Some (JObj [(''id'', JStr ''draft''), (''name'', JStr []),
                     (''sourceEndpoint'', endpointA), (''targetEndpoint'', endpointB),
                     (''fieldMappings'',
                        JArr [JObj [(''sourceField'', JStr ''FirstName''),
                                    (''targetField'', JUndefined),
                                    (''transformation'', JNull), (''confidence'', JNull),
                                    (''required'', JBool False), (''sourceType'', JUndefined),
                                    (''targetType'', JUndefined)]]),
                     (''createdAt'', JStr ''2024-04-30T08:00:00.000Z''),
                     (''updatedAt'', JStr timeStamp)])
   \<and> \<not> structurallyValid
        (JObj [(''id'', JStr ''draft''), (''name'', JStr []),
               (''sourceEndpoint'', endpointA), (''targetEndpoint'', endpointB),
               (''fieldMappings'',
                  JArr [JObj [(''sourceField'', JStr ''FirstName''),
                              (''targetField'', JUndefined),
                              (''transformation'', JNull), (''confidence'', JNull),
                              (''required'', JBool False), (''sourceType'', JUndefined),
                              (''targetType'', JUndefined)]]),
               (''createdAt'', JStr ''2024-04-30T08:00:00.000Z''),
               (''updatedAt'', JStr timeStamp)])
   \<and> imported (snd (importMappings WriteOk freshStore (Inr namelessDocument))) = 1
   \<and> map_of (storage (fst (importMappings WriteOk freshStore (Inr namelessDocument)))) ''x''
       = Some (JObj [(''id'', JStr []), (''name'', JStr []),
                     (''sourceEndpoint'', endpointA), (''targetEndpoint'', endpointB),
                     (''fieldMappings'', JArr [])])
   \<and> \<not> structurallyValid
        (JObj [(''id'', JStr []), (''name'', JStr []),
               (''sourceEndpoint'', endpointA), (''targetEndpoint'', endpointB),
               (''fieldMappings'', JArr [])])"
  by (simp add: freshStore_def draftMapping_def namelessDocument_def endpointA_def endpointB_def
      timeStamp_def structurallyValid_def nonEmptyString_def storage_eval)

text \<open>
  C4, amended. Every configuration that \<open>importMappings\<close> puts into the store has a string
  \<open>id\<close> and a string \<open>name\<close>, a \<open>sourceEndpoint\<close> and a \<open>targetEndpoint\<close>, and an array of
  correspondences each of which has \<open>sourceField\<close> and \<open>targetField\<close> populated after
  normalization: whatever the store holds after an import was there before or has this
  shape. An entry that fails the check is rejected as a unit: it leaves the store as it is
  and adds one error, and the other entries are still processed, every entry of the document
  being counted as imported or as an error.
\<close>

theorem importMappings_validates:
  "(importMappings w s parsed = (s', res) \<longrightarrow>
      (\<forall>e \<in> set (storage s'). e \<in> set (storage s) \<or> e \<in> set (storage (initialize s))
           \<or> acceptedStructure (snd e)))
   \<and> (validateMappingStructure mapping \<noteq> Inr True \<longrightarrow>
        (\<exists>err. importEntry (ident, mapping) (ms, r) =
           (ms, r\<lparr>importErrors := importErrors r @ [err]\<rparr>)))
   \<and> (importMappings w s (Inr (JObj ps)) = (s', res) \<longrightarrow>
        imported res + length (importErrors res) = length ps)"
proof (intro conjI impI)
  assume "importMappings w s parsed = (s', res)"
  from importMappings_store [OF this]
  show "\<forall>e \<in> set (storage s'). e \<in> set (storage s) \<or> e \<in> set (storage (initialize s))
           \<or> acceptedStructure (snd e)"
    by blast
next
  assume "validateMappingStructure mapping \<noteq> Inr True"
  then show "\<exists>err. importEntry (ident, mapping) (ms, r) =
           (ms, r\<lparr>importErrors := importErrors r @ [err]\<rparr>)"
    by (rule importEntry_rejects)
next
  assume "importMappings w s (Inr (JObj ps)) = (s', res)"
  then show "imported res + length (importErrors res) = length ps"
    by (rule importMappings_count)
qed

lemma importDocument_run:
  "importMappings WriteOk freshStore (Inr importDocument) =
     (\<lparr>storage =
          [(''good'',
            JObj [(''id'', JStr ''good''), (''name'', JStr ''Good''),
                  (''sourceEndpoint'', endpointA), (''targetEndpoint'', endpointB),
                  (''fieldMappings'',
                     JArr [JObj [(''sourceField'', JStr ''FirstName''),
                                 (''targetField'', JStr ''first_name''),
                                 (''transformation'', JNull), (''confidence'', JNull),
                                 (''required'', JBool False), (''sourceType'', JUndefined),
                                 (''targetType'', JUndefined)]])])],
        initialized = True, fileSystemWritable = True,
        mappingsFile =
          Content [(''good'',
            JObj [(''id'', JStr ''good''), (''name'', JStr ''Good''),
                  (''sourceEndpoint'', endpointA), (''targetEndpoint'', endpointB),
                  (''fieldMappings'',
                     JArr [JObj [(''sourceField'', JStr ''FirstName''),
                                 (''targetField'', JStr ''first_name''),
                                 (''transformation'', JNull), (''confidence'', JNull),
                                 (''required'', JBool False)]])])],
        console = [LogLine NoExistingFile, LogLine SavedMappings]\<rparr>,
      \<lparr>imported = 1, importErrors = [InvalidStructure ''bad'']\<rparr>)"
  by (simp add: freshStore_def importDocument_def endpointA_def endpointB_def storage_eval)

text \<open>
  An import of two entries: the well-formed one is stored in canonical form, the one whose
  correspondence has no target path is refused and reported.
\<close>

theorem importMappings_validates_witness:
  "imported (snd (importMappings WriteOk freshStore (Inr importDocument))) = 1
   \<and> importErrors (snd (importMappings WriteOk freshStore (Inr importDocument)))
       = [InvalidStructure ''bad'']
   \<and> map_of (storage (fst (importMappings WriteOk freshStore (Inr importDocument)))) ''bad''
       = None
   \<and> (\<exists>c. map_of (storage (fst (importMappings WriteOk freshStore (Inr importDocument))))
             ''good'' = Some c \<and> acceptedStructure c)"
proof -
  let ?run = "importMappings WriteOk freshStore (Inr importDocument)"
  obtain c where c: "map_of (storage (fst ?run)) ''good'' = Some c"
      "(''good'', c) \<in> set (storage (fst ?run))"
    by (simp add: importDocument_run)
  have empty: "storage freshStore = []" "storage (initialize freshStore) = []"
    by (simp_all add: freshStore_def initialize_def)
  have "?run = (fst ?run, snd ?run)" by simp
  from importMappings_validates
    [where w = WriteOk and s = freshStore and parsed = "Inr importDocument"
       and s' = "fst ?run" and res = "snd ?run"]
    this c(2) empty
  have "acceptedStructure c" by fastforce
  then show ?thesis
    using c(1) by (simp add: importDocument_run)
qed





end
